theory Spec2Isabelle
  imports Complex_Main
begin

section \<open>CarbonScore calculation engine (carbon\_calculator.py)\<close>

text \<open>
  A shallow embedding of \<^verbatim>\<open>src/services/calculation/carbon_calculator.py\<close>.

  Conventions of the embedding:
  \<^item> Python \<^verbatim>\<open>float\<close> values are idealised as exact reals; binary rounding of the
    arithmetic is not modelled. \<^verbatim>\<open>round(x, n)\<close> and the \<^verbatim>\<open>:.nf\<close> format
    specifications round to the nearest decimal, ties to even.
  \<^item> Python \<^verbatim>\<open>str\<close> values are lists of bytes holding the UTF-8 encoding of the text.
  \<^item> A \<^verbatim>\<open>dict\<close> is an association list in insertion order.
  \<^item> An exception is the \<open>Inl\<close> branch of a sum type.
  \<^item> Calls of \<^verbatim>\<open>logger\<close> write to the log only and are left out.
\<close>

subsection \<open>Errors and dictionaries\<close>

datatype py_error = ZeroDivisionError | KeyError | ValueError

type_synonym ('k, 'v) dict = "('k \<times> 'v) list"

definition dict_get :: "('k, 'v) dict \<Rightarrow> 'k \<Rightarrow> 'v \<Rightarrow> 'v" where
  \<comment> \<open>\<^verbatim>\<open>d.get(k, default)\<close>\<close>
  "dict_get d k dflt = (case map_of d k of None \<Rightarrow> dflt | Some v \<Rightarrow> v)"

definition dict_getitem :: "('k, 'v) dict \<Rightarrow> 'k \<Rightarrow> py_error + 'v" where
  \<comment> \<open>\<^verbatim>\<open>d[k]\<close>\<close>
  "dict_getitem d k = (case map_of d k of None \<Rightarrow> Inl KeyError | Some v \<Rightarrow> Inr v)"

definition dict_values :: "('k, 'v) dict \<Rightarrow> 'v list" where
  "dict_values d = map snd d"

definition dict_map_values :: "('v \<Rightarrow> 'w) \<Rightarrow> ('k, 'v) dict \<Rightarrow> ('k, 'w) dict" where
  \<comment> \<open>\<^verbatim>\<open>{k: f(v) for k, v in d.items()}\<close>\<close>
  "dict_map_values f d = map (\<lambda>(k, v). (k, f v)) d"

definition py_div :: "real \<Rightarrow> real \<Rightarrow> py_error + real" where
  \<comment> \<open>true division \<^verbatim>\<open>a / b\<close>, which raises on a zero divisor\<close>
  "py_div a b = (if b = 0 then Inl ZeroDivisionError else Inr (a / b))"

subsection \<open>Rounding\<close>

definition round_half_even :: "real \<Rightarrow> int" where
  "round_half_even x =
     (let f = \<lfloor>x\<rfloor>; r = x - of_int f
      in if r < 1 / 2 then f else if r > 1 / 2 then f + 1 else if even f then f else f + 1)"

definition py_round :: "real \<Rightarrow> nat \<Rightarrow> real" where
  \<comment> \<open>\<^verbatim>\<open>round(x, n)\<close>\<close>
  "py_round x n = of_int (round_half_even (x * 10 ^ n)) / 10 ^ n"

subsection \<open>Data model\<close>

record CompanyData =
  nom :: string
  secteur :: string
  effectif :: string
  chiffre_affaires :: "real option"
  localisation :: string
  electricite_kwh :: real
  gaz_kwh :: real
  carburants_litres :: real
  vehicules_km_annuel :: real
  vols_domestiques_km :: real
  vols_internationaux_km :: real
  montant_achats_annuel :: real
  pourcentage_local :: real

record SectorBenchmark =
  co2e_per_employee :: real
  co2e_per_revenue :: real
  percentile_25 :: real
  percentile_75 :: real
  main_sources :: "string list"
  transport_weight :: real

record ADEMEDataProcessor =
  emission_factors :: "(string, real) dict"

record CarbonCalculator =
  ademe_processor :: ADEMEDataProcessor
  sector_benchmarks :: "(string, SectorBenchmark) dict"

subsection \<open>The emission factor table\<close>

definition load_ademe_data :: "(string, real) dict" where
  \<comment> \<open>the dictionary assigned by \<^verbatim>\<open>load_ademe_data\<close>; \<^verbatim>\<open>_load_default_factors\<close>
      assigns the same one when the CSV file cannot be read\<close>
  "load_ademe_data =
     [(''electricite_france'', 0.0571),
      (''gaz_naturel'', 0.227),
      (''essence'', 2.80),
      (''gazole'', 3.10),
      (''voiture_essence'', 0.193),
      (''voiture_diesel'', 0.166),
      (''avion_domestique'', 0.230),
      (''avion_international'', 0.156),
      (''achats_biens'', 0.45),
      (''achats_services'', 0.32),
      (''transport_reduction'', 0.20)]"

definition new_ADEMEDataProcessor :: ADEMEDataProcessor where
  "new_ADEMEDataProcessor = \<lparr>emission_factors = load_ademe_data\<rparr>"

definition get_factor :: "ADEMEDataProcessor \<Rightarrow> string \<Rightarrow> real" where
  "get_factor p factor_name = dict_get (emission_factors p) factor_name 0.0"

subsection \<open>The sector benchmark table\<close>

definition bench_industrie :: SectorBenchmark where
  "bench_industrie = \<lparr>co2e_per_employee = 12.5, co2e_per_revenue = 0.0045,
     percentile_25 = 8.2, percentile_75 = 18.7,
     main_sources = [''electricite'', ''gaz'', ''achats''], transport_weight = 0.15\<rparr>"

definition bench_services :: SectorBenchmark where
  "bench_services = \<lparr>co2e_per_employee = 4.2, co2e_per_revenue = 0.0028,
     percentile_25 = 2.8, percentile_75 = 6.9,
     main_sources = [''electricite'', ''vols_internationaux'', ''achats''], transport_weight = 0.25\<rparr>"

definition bench_commerce :: SectorBenchmark where
  "bench_commerce = \<lparr>co2e_per_employee = 6.8, co2e_per_revenue = 0.0035,
     percentile_25 = 4.1, percentile_75 = 9.2,
     main_sources = [''electricite'', ''achats'', ''vehicules''], transport_weight = 0.30\<rparr>"

definition bench_construction :: SectorBenchmark where
  "bench_construction = \<lparr>co2e_per_employee = 15.3, co2e_per_revenue = 0.0052,
     percentile_25 = 11.2, percentile_75 = 21.4,
     main_sources = [''vehicules'', ''carburants'', ''achats''], transport_weight = 0.45\<rparr>"

definition bench_transport :: SectorBenchmark where
  "bench_transport = \<lparr>co2e_per_employee = 18.7, co2e_per_revenue = 0.0067,
     percentile_25 = 13.5, percentile_75 = 25.8,
     main_sources = [''vehicules'', ''carburants'', ''vols_domestiques''], transport_weight = 0.70\<rparr>"

definition bench_logistique :: SectorBenchmark where
  "bench_logistique = \<lparr>co2e_per_employee = 22.3, co2e_per_revenue = 0.0078,
     percentile_25 = 16.8, percentile_75 = 29.5,
     main_sources = [''vehicules'', ''carburants'', ''vols_domestiques''], transport_weight = 0.75\<rparr>"

definition bench_restauration :: SectorBenchmark where
  "bench_restauration = \<lparr>co2e_per_employee = 8.5, co2e_per_revenue = 0.0042,
     percentile_25 = 5.2, percentile_75 = 12.1,
     main_sources = [''gaz'', ''electricite'', ''achats''], transport_weight = 0.10\<rparr>"

definition bench_technologie :: SectorBenchmark where
  "bench_technologie = \<lparr>co2e_per_employee = 3.8, co2e_per_revenue = 0.0022,
     percentile_25 = 2.1, percentile_75 = 5.9,
     main_sources = [''electricite'', ''vols_internationaux'', ''achats''], transport_weight = 0.20\<rparr>"

definition bench_agriculture :: SectorBenchmark where
  "bench_agriculture = \<lparr>co2e_per_employee = 16.8, co2e_per_revenue = 0.0058,
     percentile_25 = 12.3, percentile_75 = 23.4,
     main_sources = [''carburants'', ''vehicules'', ''gaz''], transport_weight = 0.40\<rparr>"

definition load_sector_benchmarks :: "(string, SectorBenchmark) dict" where
  "load_sector_benchmarks =
     [(''industrie'', bench_industrie),
      (''services'', bench_services),
      (''commerce'', bench_commerce),
      (''construction'', bench_construction),
      (''transport'', bench_transport),
      (''logistique'', bench_logistique),
      (''restauration'', bench_restauration),
      (''technologie'', bench_technologie),
      (''agriculture'', bench_agriculture)]"

definition new_CarbonCalculator :: CarbonCalculator where
  \<comment> \<open>\<^verbatim>\<open>CarbonCalculator()\<close>\<close>
  "new_CarbonCalculator =
     \<lparr>ademe_processor = new_ADEMEDataProcessor, sector_benchmarks = load_sector_benchmarks\<rparr>"

subsection \<open>Scope calculator\<close>

definition calculate_scope_1 :: "CarbonCalculator \<Rightarrow> CompanyData \<Rightarrow> real" where
  "calculate_scope_1 self data =
     (let emissions = 0.0;
          fuel_combustion = carburants_litres data * get_factor (ademe_processor self) ''essence'';
          emissions = emissions + fuel_combustion;
          gas_combustion = gaz_kwh data * get_factor (ademe_processor self) ''gaz_naturel'';
          emissions = emissions + gas_combustion;
          vehicle_emissions =
            vehicules_km_annuel data * get_factor (ademe_processor self) ''voiture_essence'';
          emissions = emissions + vehicle_emissions
      in emissions)"

definition calculate_scope_2 :: "CarbonCalculator \<Rightarrow> CompanyData \<Rightarrow> real" where
  "calculate_scope_2 self data =
     (let electricity_emissions =
            electricite_kwh data * get_factor (ademe_processor self) ''electricite_france''
      in electricity_emissions)"

definition upstream_energy :: "CompanyData \<Rightarrow> real" where
  \<comment> \<open>the local \<^verbatim>\<open>upstream_energy\<close> of \<^verbatim>\<open>_calculate_scope_3\<close>\<close>
  "upstream_energy data = electricite_kwh data * 0.0134 + gaz_kwh data * 0.0456"

definition calculate_scope_3 :: "CarbonCalculator \<Rightarrow> CompanyData \<Rightarrow> real" where
  "calculate_scope_3 self data =
     (let emissions = 0.0;
          domestic_flights =
            vols_domestiques_km data * get_factor (ademe_processor self) ''avion_domestique'';
          international_flights =
            vols_internationaux_km data * get_factor (ademe_processor self) ''avion_international'';
          emissions = emissions + (domestic_flights + international_flights);
          purchase_emissions =
            montant_achats_annuel data * get_factor (ademe_processor self) ''achats_biens'';
          local_reduction =
            (pourcentage_local data / 100) * get_factor (ademe_processor self) ''transport_reduction'';
          purchase_emissions = purchase_emissions * (1 - local_reduction);
          emissions = emissions + purchase_emissions;
          emissions = emissions + upstream_energy data
      in emissions)"

definition raw_breakdown :: "CarbonCalculator \<Rightarrow> CompanyData \<Rightarrow> (string, real) dict" where
  \<comment> \<open>the dictionary \<^verbatim>\<open>breakdown\<close> of \<^verbatim>\<open>_calculate_detailed_breakdown\<close> before its
      values are rounded\<close>
  "raw_breakdown self data =
     (let purchase_base =
            montant_achats_annuel data * get_factor (ademe_processor self) ''achats_biens'';
          local_reduction =
            (pourcentage_local data / 100) * get_factor (ademe_processor self) ''transport_reduction''
      in [(''electricite'',
             electricite_kwh data * get_factor (ademe_processor self) ''electricite_france''),
          (''gaz'', gaz_kwh data * get_factor (ademe_processor self) ''gaz_naturel''),
          (''carburants'', carburants_litres data * get_factor (ademe_processor self) ''essence''),
          (''vehicules'',
             vehicules_km_annuel data * get_factor (ademe_processor self) ''voiture_essence''),
          (''vols_domestiques'',
             vols_domestiques_km data * get_factor (ademe_processor self) ''avion_domestique''),
          (''vols_internationaux'',
             vols_internationaux_km data * get_factor (ademe_processor self) ''avion_international''),
          (''achats'', purchase_base * (1 - local_reduction))])"

definition calculate_detailed_breakdown ::
  "CarbonCalculator \<Rightarrow> CompanyData \<Rightarrow> (string, real) dict" where
  "calculate_detailed_breakdown self data =
     dict_map_values (\<lambda>v. py_round v 2) (raw_breakdown self data)"

subsection \<open>Benchmark analyzer\<close>

definition parse_employee_count :: "string \<Rightarrow> int" where
  "parse_employee_count e =
     (if e = ''1-9'' then 5
      else if e = ''10-49'' then 25
      else if e = ''50-249'' then 125
      else if e = ''250+'' then 500
      else 25)"

definition benchmark_sector_data :: "CarbonCalculator \<Rightarrow> CompanyData \<Rightarrow> py_error + SectorBenchmark" where
  \<comment> \<open>\<^verbatim>\<open>self.sector_benchmarks.get(data.secteur, self.sector_benchmarks['services'])\<close>\<close>
  "benchmark_sector_data self data =
     (case dict_getitem (sector_benchmarks self) ''services'' of
        Inl e \<Rightarrow> Inl e
      | Inr services \<Rightarrow> Inr (dict_get (sector_benchmarks self) (secteur data) services))"

subsection \<open>Text\<close>

abbreviation apostrophe :: string where "apostrophe \<equiv> [CHR 0x27]"
abbreviation e_acute :: string where "e_acute \<equiv> [CHR 0xC3, CHR 0xA9]"
abbreviation e_grave :: string where "e_grave \<equiv> [CHR 0xC3, CHR 0xA8]"
abbreviation a_grave :: string where "a_grave \<equiv> [CHR 0xC3, CHR 0xA0]"
abbreviation a_circ :: string where "a_circ \<equiv> [CHR 0xC3, CHR 0xA2]"
abbreviation u_circ :: string where "u_circ \<equiv> [CHR 0xC3, CHR 0xBB]"
abbreviation cap_e_acute :: string where "cap_e_acute \<equiv> [CHR 0xC3, CHR 0x89]"
abbreviation cap_a_grave :: string where "cap_a_grave \<equiv> [CHR 0xC3, CHR 0x80]"
abbreviation arrow :: string where "arrow \<equiv> [CHR 0xE2, CHR 0x86, CHR 0x92]"
abbreviation sub_two :: string where "sub_two \<equiv> [CHR 0xE2, CHR 0x82, CHR 0x82]"
abbreviation euro :: string where "euro \<equiv> [CHR 0xE2, CHR 0x82, CHR 0xAC]"

definition digit_char :: "nat \<Rightarrow> char" where
  "digit_char n = ''0123456789'' ! n"

function str_nat :: "nat \<Rightarrow> string" where
  "str_nat n = (if n < 10 then [digit_char n] else str_nat (n div 10) @ [digit_char (n mod 10)])"
  by pat_completeness auto
termination
  by (relation "measure (\<lambda>n. n)") auto

declare str_nat.simps [simp del]

definition format_f0 :: "real \<Rightarrow> string" where
  \<comment> \<open>\<^verbatim>\<open>f"{x:.0f}"\<close>\<close>
  "format_f0 x = (if x < 0 then ''-'' else []) @ str_nat (nat (round_half_even \<bar>x\<bar>))"

definition format_f1 :: "real \<Rightarrow> string" where
  \<comment> \<open>\<^verbatim>\<open>f"{x:.1f}"\<close>\<close>
  "format_f1 x =
     (let n = nat (round_half_even (\<bar>x\<bar> * 10))
      in (if x < 0 then ''-'' else []) @ str_nat (n div 10) @ ''.'' @ [digit_char (n mod 10)])"

subsection \<open>Benchmark label\<close>

definition benchmark_label :: "SectorBenchmark \<Rightarrow> int \<Rightarrow> real \<Rightarrow> string" where
  \<comment> \<open>the body of \<^verbatim>\<open>_analyze_benchmark\<close> from the test of \<^verbatim>\<open>employees_count\<close> on\<close>
  "benchmark_label sector_data employees_count total_emissions =
     (if employees_count = 0 then ''Donn'' @ e_acute @ ''es insuffisantes pour le benchmark''
      else
        (let intensity = total_emissions / of_int employees_count
         in if intensity \<le> percentile_25 sector_data
            then ''Excellent - Top 25% de votre secteur''
            else if intensity \<le> co2e_per_employee sector_data
            then ''Bon - Proche de la moyenne sectorielle''
            else if intensity \<le> percentile_75 sector_data
            then ''Moyen - Am'' @ e_acute @ ''lioration possible''
            else cap_a_grave @ '' am'' @ e_acute @ ''liorer - '' @ cap_e_acute @ ''missions '' @
                 e_acute @ ''lev'' @ e_acute @ ''es pour votre secteur''))"

definition analyze_benchmark :: "CarbonCalculator \<Rightarrow> CompanyData \<Rightarrow> real \<Rightarrow> py_error + string" where
  "analyze_benchmark self data total_emissions =
     (case benchmark_sector_data self data of
        Inl e \<Rightarrow> Inl e
      | Inr sector_data \<Rightarrow>
          (let employees_count = parse_employee_count (effectif data)
           in Inr (benchmark_label sector_data employees_count total_emissions)))"

subsection \<open>Recommendation texts\<close>

definition tpl_led :: "real \<Rightarrow> real \<Rightarrow> real \<Rightarrow> string" where
  \<comment> \<open>the f-string of lines 371-372\<close>
  "tpl_led x1 x2 x3 =
     ''Optimiser l'' @ apostrophe @ e_acute @ ''clairage LED et '' @ e_acute @
     ''quipements '' @ arrow @ '' r'' @ e_acute @ ''duit '' @ format_f0 x1 @ '' kgCO'' @
     sub_two @ ''e ('' @ format_f1 x2 @ ''% total) | '' @ cap_e_acute @ ''conomie: '' @
     format_f0 x3 @ euro @ ''/an | D'' @ e_acute @ ''lai: 3-6 mois | ROI: 2-3 ans''"

definition tpl_green :: "real \<Rightarrow> real \<Rightarrow> real \<Rightarrow> string" where
  \<comment> \<open>the f-string of lines 376-377\<close>
  "tpl_green x1 x2 x3 =
     ''Passer '' @ a_grave @ '' l'' @ apostrophe @ e_acute @ ''lectricit'' @ e_acute @
     '' verte (100% renouvelable) '' @ arrow @ '' r'' @ e_acute @ ''duit '' @ format_f0 x1 @
     '' kgCO'' @ sub_two @ ''e ('' @ format_f1 x2 @ ''% total) | Surco'' @ u_circ @ ''t: ~'' @
     format_f0 x3 @ euro @ ''/an | D'' @ e_acute @ ''lai: 1 mois | Impact imm'' @ e_acute @
     ''diat''"

definition tpl_routes :: "real \<Rightarrow> real \<Rightarrow> real \<Rightarrow> string" where
  \<comment> \<open>the f-string of lines 391-392\<close>
  "tpl_routes x1 x2 x3 =
     ''Optimiser les itin'' @ e_acute @ ''raires de livraison (logiciel de routage) '' @
     arrow @ '' r'' @ e_acute @ ''duit '' @ format_f0 x1 @ '' kgCO'' @ sub_two @ ''e ('' @
     format_f1 x2 @ ''% total) | '' @ cap_e_acute @ ''conomie carburant: '' @ format_f0 x3 @
     euro @ ''/an | D'' @ e_acute @ ''lai: 1-2 mois | ROI: 6 mois''"

definition tpl_ev :: "real \<Rightarrow> real \<Rightarrow> string" where
  \<comment> \<open>the f-string of lines 399-400\<close>
  "tpl_ev x1 x2 =
     cap_e_acute @ ''lectrifier 30% de la flotte (v'' @ e_acute @ ''hicules l'' @ e_acute @
     ''gers) '' @ arrow @ '' r'' @ e_acute @ ''duit '' @ format_f0 x1 @ '' kgCO'' @ sub_two @
     ''e | Investissement: ~'' @ format_f0 x2 @ euro @ '' | D'' @ e_acute @
     ''lai: 2026 | Aides disponibles''"

definition tpl_carpool :: "real \<Rightarrow> real \<Rightarrow> string" where
  \<comment> \<open>the f-string of lines 406-407\<close>
  "tpl_carpool x1 x2 =
     ''Encourager covoiturage et t'' @ e_acute @ ''l'' @ e_acute @ ''travail (2j/semaine) '' @
     arrow @ '' r'' @ e_acute @ ''duit '' @ format_f0 x1 @ '' kgCO'' @ sub_two @ ''e ('' @
     format_f1 x2 @ ''% total) | Co'' @ u_circ @ ''t: 0'' @ euro @ '' | D'' @ e_acute @
     ''lai: imm'' @ e_acute @ ''diat | Bonus: satisfaction employ'' @ e_acute @ ''s''"

definition tpl_ecodrive :: "real \<Rightarrow> real \<Rightarrow> real \<Rightarrow> string" where
  \<comment> \<open>the f-string of lines 421-422\<close>
  "tpl_ecodrive x1 x2 x3 =
     ''Formation '' @ e_acute @ ''co-conduite + entretien pr'' @ e_acute @ ''ventif '' @
     arrow @ '' r'' @ e_acute @ ''duit '' @ format_f0 x1 @ '' kgCO'' @ sub_two @ ''e ('' @
     format_f1 x2 @ ''% total) | '' @ cap_e_acute @ ''conomie: '' @ format_f0 x3 @ euro @
     ''/an | D'' @ e_acute @ ''lai: 2 mois | ROI: imm'' @ e_acute @ ''diat''"

definition tpl_biofuel :: "real \<Rightarrow> real \<Rightarrow> string" where
  \<comment> \<open>the f-string of lines 429-430\<close>
  "tpl_biofuel x1 x2 =
     ''Int'' @ e_acute @ ''grer biocarburants (B30/HVO) dans la flotte '' @ arrow @ '' r'' @
     e_acute @ ''duit '' @ format_f0 x1 @ '' kgCO'' @ sub_two @ ''e | Surco'' @ u_circ @
     ''t: ~'' @ format_f0 x2 @ euro @ ''/an | D'' @ e_acute @ ''lai: 6 mois | Compatible v'' @
     e_acute @ ''hicules actuels''"

definition tpl_heatpump :: "real \<Rightarrow> real \<Rightarrow> real \<Rightarrow> string" where
  \<comment> \<open>the f-string of lines 443-444\<close>
  "tpl_heatpump x1 x2 x3 =
     ''Remplacer chaudi'' @ e_grave @ ''re gaz par pompe '' @ a_grave @ '' chaleur '' @ arrow @
     '' r'' @ e_acute @ ''duit '' @ format_f0 x1 @ '' kgCO'' @ sub_two @ ''e ('' @
     format_f1 x2 @ ''% total) | Investissement: ~'' @ format_f0 x3 @ euro @ '' | D'' @
     e_acute @ ''lai: 2026 | Aides: MaPrimeR'' @ e_acute @ ''nov'' @ apostrophe @ '' Pro''"

definition tpl_insulation :: "real \<Rightarrow> real \<Rightarrow> string" where
  \<comment> \<open>the f-string of lines 450-451\<close>
  "tpl_insulation x1 x2 =
     ''Am'' @ e_acute @ ''liorer isolation b'' @ a_circ @ ''timent (murs, toiture) '' @ arrow @
     '' r'' @ e_acute @ ''duit '' @ format_f0 x1 @ '' kgCO'' @ sub_two @ ''e ('' @
     format_f1 x2 @ ''% total) | Investissement: moyen | D'' @ e_acute @
     ''lai: 12-18 mois | ROI: 5-7 ans''"

definition tpl_video :: "string \<Rightarrow> real \<Rightarrow> real \<Rightarrow> real \<Rightarrow> string" where
  \<comment> \<open>the f-string of lines 464-465\<close>
  "tpl_video x1 x2 x3 x4 =
     ''Remplacer 30% vols '' @ x1 @ '' par visioconf'' @ e_acute @ ''rence '' @ arrow @
     '' r'' @ e_acute @ ''duit '' @ format_f0 x2 @ '' kgCO'' @ sub_two @ ''e ('' @
     format_f1 x3 @ ''% total) | '' @ cap_e_acute @ ''conomie: ~'' @ format_f0 x4 @ euro @
     ''/an | D'' @ e_acute @ ''lai: imm'' @ e_acute @ ''diat | Politique voyage requise''"

definition tpl_offset :: "real \<Rightarrow> real \<Rightarrow> string" where
  \<comment> \<open>the f-string of lines 472-473\<close>
  "tpl_offset x1 x2 =
     ''Compenser vols restants (projets certifi'' @ e_acute @ ''s) '' @ arrow @
     '' neutralise '' @ format_f0 x1 @ '' kgCO'' @ sub_two @ ''e | Co'' @ u_circ @ ''t: ~'' @
     format_f0 x2 @ euro @ ''/an | D'' @ e_acute @ ''lai: imm'' @ e_acute @
     ''diat | Label: Climate Neutral''"

definition tpl_local :: "real \<Rightarrow> real \<Rightarrow> real \<Rightarrow> real \<Rightarrow> string" where
  \<comment> \<open>the f-string of lines 489-490\<close>
  "tpl_local x1 x2 x3 x4 =
     ''Augmenter achats locaux de '' @ format_f0 x1 @ ''% '' @ a_grave @ '' '' @ format_f0 x2 @
     ''% '' @ arrow @ '' r'' @ e_acute @ ''duit '' @ format_f0 x3 @ '' kgCO'' @ sub_two @
     ''e ('' @ format_f1 x4 @ ''% total) | Co'' @ u_circ @ ''t: neutre | D'' @ e_acute @
     ''lai: 6-12 mois | Bonus: r'' @ e_acute @ ''silience supply chain''"

definition tpl_suppliers :: "real \<Rightarrow> real \<Rightarrow> real \<Rightarrow> string" where
  \<comment> \<open>the f-string of lines 497-498\<close>
  "tpl_suppliers x1 x2 x3 =
     cap_e_acute @ ''valuer et changer 3 fournisseurs principaux (crit'' @ e_grave @
     ''res carbone) '' @ arrow @ '' r'' @ e_acute @ ''duit '' @ format_f0 x1 @ '' kgCO'' @
     sub_two @ ''e ('' @ format_f1 x2 @ ''% total) | Co'' @ u_circ @ ''t: audit '' @
     format_f0 x3 @ euro @ '' | D'' @ e_acute @ ''lai: 12 mois | Impact: supply chain durable''"

definition tpl_modal :: "real \<Rightarrow> string" where
  \<comment> \<open>the f-string of lines 506-507\<close>
  "tpl_modal x1 =
     ''Report modal (30% route vers rail/fluvial) '' @ arrow @ '' r'' @ e_acute @ ''duit ~'' @
     format_f0 x1 @ '' kgCO'' @ sub_two @ ''e | D'' @ e_acute @
     ''lai: 18-24 mois | Partenariats: SNCF Fret, VNF''"

definition tpl_foodwaste :: "real \<Rightarrow> real \<Rightarrow> string" where
  \<comment> \<open>the f-string of lines 513-514\<close>
  "tpl_foodwaste x1 x2 =
     ''R'' @ e_acute @ ''duire gaspillage alimentaire (-50%) '' @ arrow @ '' r'' @ e_acute @
     ''duit ~'' @ format_f0 x1 @ '' kgCO'' @ sub_two @ ''e | '' @ cap_e_acute @ ''conomie: '' @
     format_f0 x2 @ euro @ ''/an | D'' @ e_acute @ ''lai: 3 mois | App: Too Good To Go''"

definition tpl_datacenter :: "real \<Rightarrow> real \<Rightarrow> string" where
  \<comment> \<open>the f-string of lines 521-522\<close>
  "tpl_datacenter x1 x2 =
     ''Optimiser data centers (refroidissement, serveurs) '' @ arrow @ '' r'' @ e_acute @
     ''duit ~'' @ format_f0 x1 @ '' kgCO'' @ sub_two @ ''e | '' @ cap_e_acute @ ''conomie: '' @
     format_f0 x2 @ euro @ ''/an | D'' @ e_acute @ ''lai: 6 mois | PUE target: <1.5''"

subsection \<open>Reading the reduction back from a text\<close>

definition is_digit :: "char \<Rightarrow> bool" where
  "is_digit c = (c \<in> set ''0123456789'')"

definition is_space :: "char \<Rightarrow> bool" where
  \<comment> \<open>the one-byte characters that \<^verbatim>\<open>\s\<close> matches\<close>
  "is_space c = (c \<in> set [CHR 0x20, CHR 0x09, CHR 0x0A, CHR 0x0B, CHR 0x0C, CHR 0x0D,
                           CHR 0x1C, CHR 0x1D, CHR 0x1E, CHR 0x1F])"

definition digits_value :: "string \<Rightarrow> nat" where
  "digits_value ds = foldl (\<lambda>a c. 10 * a + (of_char c - 48)) 0 ds"

definition starts_with :: "string \<Rightarrow> string \<Rightarrow> bool" where
  "starts_with s p = (take (length p) s = p)"

definition match_here :: "string \<Rightarrow> real option" where
  \<comment> \<open>a match of the pattern of \<^verbatim>\<open>extract_co2_reduction\<close> (the word "reduit" with
      its accent, a space, \<^verbatim>\<open>(\d+(?:\.\d+)?)\s*\<close>, then "kgCO2e" with its subscript)
      that starts at the head of the text, as the value of its group 1; every repetition
      of the pattern is followed by a character it cannot match, so the greedy choice is
      the only one\<close>
  "match_here s =
     (if \<not> starts_with s (''r'' @ e_acute @ ''duit '') then None
      else
        (let s1 = drop (length (''r'' @ e_acute @ ''duit '')) s;
             int_digits = takeWhile is_digit s1;
             s2 = dropWhile is_digit s1
         in if int_digits = [] then None
            else
              (let frac_digits =
                     (case s2 of [] \<Rightarrow> []
                      | c # t \<Rightarrow> if c = CHR ''.'' then takeWhile is_digit t else []);
                   s3 = (if frac_digits = [] then s2 else dropWhile is_digit (tl s2));
                   s4 = dropWhile is_space s3
               in if starts_with s4 (''kgCO'' @ sub_two @ ''e'')
                  then Some (of_nat (digits_value int_digits)
                             + of_nat (digits_value frac_digits) / 10 ^ length frac_digits)
                  else None)))"

fun re_search :: "string \<Rightarrow> real option" where
  "re_search [] = match_here []"
| "re_search (c # cs) =
     (case match_here (c # cs) of Some v \<Rightarrow> Some v | None \<Rightarrow> re_search cs)"

definition extract_co2_reduction :: "string \<Rightarrow> real" where
  "extract_co2_reduction rec = (case re_search rec of Some v \<Rightarrow> v | None \<Rightarrow> 0)"

subsection \<open>Recommendation ranker\<close>

definition sorted_desc :: "('a \<Rightarrow> real) \<Rightarrow> 'a list \<Rightarrow> 'a list" where
  \<comment> \<open>\<^verbatim>\<open>sorted(xs, key=key, reverse=True)\<close>: stable, descending\<close>
  "sorted_desc key xs = sort_key (\<lambda>x. - key x) xs"

definition recommendations_sector_data ::
  "CarbonCalculator \<Rightarrow> CompanyData \<Rightarrow> py_error + SectorBenchmark" where
  \<comment> \<open>the local \<^verbatim>\<open>sector_data\<close> of \<^verbatim>\<open>_generate_recommendations\<close>\<close>
  "recommendations_sector_data self data =
     (case dict_getitem (sector_benchmarks self) ''services'' of
        Inl e \<Rightarrow> Inl e
      | Inr services \<Rightarrow>
          Inr (dict_get (sector_benchmarks self) (secteur data)
                 (dict_get (sector_benchmarks self) ''logistique'' services)))"

definition source_recommendations ::
  "CompanyData \<Rightarrow> real \<Rightarrow> string \<Rightarrow> real \<Rightarrow> py_error + string list" where
  \<comment> \<open>one pass through the body of the loop over \<^verbatim>\<open>sorted_sources[:5]\<close>: the texts it
      appends\<close>
  "source_recommendations data total_emissions source emissions =
     (case py_div emissions total_emissions of
        Inl e \<Rightarrow> Inl e
      | Inr q \<Rightarrow>
     (let percentage = q * 100 in
      if percentage < 5 then Inr []
      else if source = ''electricite'' \<and> emissions > 0 then
        (let kwh = electricite_kwh data;
             reduction_kwh = kwh * 0.30;
             reduction_co2 = emissions * 0.30;
             cost_savings = reduction_kwh * 0.15
         in if secteur data \<in> set [''industrie'', ''commerce'', ''restauration'']
            then Inr [tpl_led reduction_co2 (percentage * 0.3) cost_savings]
            else Inr [tpl_green emissions percentage (kwh * 0.02)])
      else if source = ''vehicules'' \<and> emissions > 0 then
        (let km_annual = vehicules_km_annuel data
         in if secteur data \<in> set [''transport'', ''logistique'', ''construction'']
            then
              (let reduction_km = km_annual * 0.12;
                   reduction_co2 = emissions * 0.12;
                   fuel_savings = (reduction_km / 100) * 6 * 1.8
               in Inr ([tpl_routes reduction_co2 (percentage * 0.12) fuel_savings] @
                       (if km_annual > 20000
                        then (let ev_reduction = emissions * 0.65
                              in [tpl_ev (ev_reduction * 0.3) ((km_annual / 20000) * 35000)])
                        else [])))
            else
              (let reduction_co2 = emissions * 0.25
               in Inr [tpl_carpool reduction_co2 (percentage * 0.25)]))
      else if source = ''carburants'' \<and> emissions > 0 then
        (let liters = carburants_litres data
         in if secteur data \<in> set [''transport'', ''logistique'', ''construction'', ''agriculture'']
            then
              (let reduction_liters = liters * 0.15;
                   reduction_co2 = emissions * 0.15;
                   fuel_savings = reduction_liters * 1.8
               in Inr ([tpl_ecodrive reduction_co2 (percentage * 0.15) fuel_savings] @
                       (if liters > 5000
                        then (let bio_reduction = emissions * 0.20
                              in [tpl_biofuel bio_reduction (liters * 0.1)])
                        else [])))
            else Inr [])
      else if source = ''gaz'' \<and> emissions > 0 then
        (let kwh_gas = gaz_kwh data
         in if secteur data \<in> set [''industrie'', ''restauration'', ''commerce'']
            then
              (let reduction_co2 = emissions * 0.60;
                   investment = kwh_gas * 0.08
               in Inr [tpl_heatpump reduction_co2 (percentage * 0.6) investment])
            else
              (let reduction_co2 = emissions * 0.25
               in Inr [tpl_insulation reduction_co2 (percentage * 0.25)]))
      else if source \<in> set [''vols_domestiques'', ''vols_internationaux''] \<and> emissions > 0 then
        (let km_flights = (if source = ''vols_domestiques'' then vols_domestiques_km data
                           else vols_internationaux_km data);
             flight_type = (if source = ''vols_domestiques'' then ''domestiques''
                            else ''internationaux'');
             reduction_co2 = emissions * 0.30;
             cost_savings = (km_flights / 1000) * 0.15 * 0.30
         in Inr ([tpl_video flight_type reduction_co2 (percentage * 0.3) cost_savings] @
                 (if km_flights > 10000
                  then (let offset_cost = emissions * 0.025
                        in [tpl_offset emissions offset_cost])
                  else [])))
      else if source = ''achats'' \<and> emissions > 0 then
        (let montant = montant_achats_annuel data;
             local_pct = pourcentage_local data
         in if secteur data \<notin> set [''transport'', ''logistique'']
            then
              (case (if local_pct < 60
                     then
                       (let potential_increase = min 30 (70 - local_pct);
                            reduction_co2 = emissions * (potential_increase / 100) * 0.20
                        in case py_div reduction_co2 total_emissions of
                             Inl e \<Rightarrow> Inl e
                           | Inr q2 \<Rightarrow>
                               Inr [tpl_local local_pct (local_pct + potential_increase)
                                      reduction_co2 (q2 * 100)])
                     else Inr [])
               of Inl e \<Rightarrow> Inl e
                | Inr recs1 \<Rightarrow>
                    Inr (recs1 @
                         (if montant > 100000
                          then (let reduction_co2 = emissions * 0.17
                                in [tpl_suppliers reduction_co2 (percentage * 0.17)
                                      (montant * 0.001)])
                          else [])))
            else Inr [])
      else Inr []))"

fun recommendations_loop ::
  "CompanyData \<Rightarrow> real \<Rightarrow> (string \<times> real) list \<Rightarrow> string list \<Rightarrow> py_error + string list" where
  "recommendations_loop data total_emissions [] recommendations = Inr recommendations"
| "recommendations_loop data total_emissions ((source, emissions) # rest) recommendations =
     (case source_recommendations data total_emissions source emissions of
        Inl e \<Rightarrow> Inl e
      | Inr new \<Rightarrow> recommendations_loop data total_emissions rest (recommendations @ new))"

definition strategic_recommendations :: "CompanyData \<Rightarrow> (string, real) dict \<Rightarrow> string list" where
  \<comment> \<open>the sector-specific texts appended after the loop\<close>
  "strategic_recommendations data breakdown =
     (if secteur data \<in> set [''transport'', ''logistique'']
      then (if vehicules_km_annuel data > 50000
            then [tpl_modal (dict_get breakdown ''vehicules'' 0 * 0.25)]
            else [])
      else if secteur data = ''restauration''
      then [tpl_foodwaste (dict_get breakdown ''achats'' 0 * 0.15)
              (montant_achats_annuel data * 0.08)]
      else if secteur data = ''technologie''
      then (if electricite_kwh data > 30000
            then [tpl_datacenter (dict_get breakdown ''electricite'' 0 * 0.25)
                    (electricite_kwh data * 0.15 * 0.25)]
            else [])
      else [])"

definition generate_recommendations ::
  "CarbonCalculator \<Rightarrow> CompanyData \<Rightarrow> (string, real) dict \<Rightarrow> py_error + string list" where
  "generate_recommendations self data breakdown =
     (let total_emissions = sum_list (dict_values breakdown)
      in case recommendations_sector_data self data of
           Inl e \<Rightarrow> Inl e
         | Inr sector_data \<Rightarrow>
             (let sorted_sources = sorted_desc snd breakdown
              in case recommendations_loop data total_emissions (take 5 sorted_sources) [] of
                   Inl e \<Rightarrow> Inl e
                 | Inr recommendations \<Rightarrow>
                     (let recommendations = recommendations @ strategic_recommendations data breakdown;
                          recommendations = sorted_desc extract_co2_reduction recommendations
                      in Inr (take 8 recommendations))))"

subsection \<open>KPI synthesizer\<close>

record MonthlyEntry =
  month :: nat
  emissions :: real
  factor :: real

record AdvancedKPIs =
  carbon_efficiency_score :: real
  reduction_potential :: "(string, real) dict"
  trajectory_2030 :: "(string, real) dict"
  sustainability_grade :: string
  cost_of_carbon :: real
  equivalent_metrics :: "(string, real) dict"
  monthly_breakdown :: "MonthlyEntry list"
  peer_comparison :: "(string, real) dict"
  certification_readiness :: "(string, bool) dict"
  ai_insights :: "(string, string) dict"

definition kpi_sector_avg :: "CarbonCalculator \<Rightarrow> CompanyData \<Rightarrow> py_error + SectorBenchmark" where
  \<comment> \<open>the local \<^verbatim>\<open>sector_avg\<close> of \<^verbatim>\<open>_calculate_advanced_kpis\<close>\<close>
  "kpi_sector_avg self data =
     (case dict_getitem (sector_benchmarks self) ''services'' of
        Inl e \<Rightarrow> Inl e
      | Inr services \<Rightarrow> Inr (dict_get (sector_benchmarks self) (secteur data) services))"

definition percentile_sector_data :: "CarbonCalculator \<Rightarrow> string \<Rightarrow> py_error + SectorBenchmark" where
  \<comment> \<open>the local \<^verbatim>\<open>sector_data\<close> of \<^verbatim>\<open>_calculate_percentile\<close>\<close>
  "percentile_sector_data self sector =
     (case dict_getitem (sector_benchmarks self) ''services'' of
        Inl e \<Rightarrow> Inl e
      | Inr services \<Rightarrow> Inr (dict_get (sector_benchmarks self) sector services))"

definition calculate_percentile :: "CarbonCalculator \<Rightarrow> string \<Rightarrow> real \<Rightarrow> py_error + int" where
  "calculate_percentile self sector intensity =
     (case percentile_sector_data self sector of
        Inl e \<Rightarrow> Inl e
      | Inr sector_data \<Rightarrow>
          Inr (if intensity \<le> percentile_25 sector_data then 25
               else if intensity \<le> co2e_per_employee sector_data then 50
               else if intensity \<le> percentile_75 sector_data then 75
               else 90))"

definition efficiency_ratio_of :: "SectorBenchmark \<Rightarrow> real \<Rightarrow> int \<Rightarrow> py_error + real" where
  \<comment> \<open>the conditional expression assigned to \<^verbatim>\<open>efficiency_ratio\<close>\<close>
  "efficiency_ratio_of sector_avg total_emissions employees_count =
     (if employees_count > 0
      then (case py_div total_emissions (of_int employees_count) of
              Inl e \<Rightarrow> Inl e
            | Inr per_employee \<Rightarrow> py_div (co2e_per_employee sector_avg) per_employee)
      else Inr 0)"

definition grade_of :: "real \<Rightarrow> string" where
  \<comment> \<open>the chain of tests that assigns \<^verbatim>\<open>sustainability_grade\<close>\<close>
  "grade_of score =
     (if score \<ge> 90 then ''A+''
      else if score \<ge> 80 then ''A''
      else if score \<ge> 70 then ''B''
      else if score \<ge> 60 then ''C''
      else if score \<ge> 50 then ''D''
      else ''F'')"

definition reduction_potential_of :: "(string, real) dict \<Rightarrow> (string, real) dict" where
  \<comment> \<open>the loop that fills \<^verbatim>\<open>reduction_potential\<close>\<close>
  "reduction_potential_of bd =
     map (\<lambda>(category, em).
            if category = ''electricite'' then (category, em * 0.30)
            else if category = ''vehicules'' then (category, em * 0.50)
            else if category \<in> set [''vols_domestiques'', ''vols_internationaux'']
            then (category, em * 0.25)
            else if category = ''achats'' then (category, em * 0.20)
            else (category, em * 0.15)) bd"

definition seasonal_factors :: "real list" where
  "seasonal_factors = [1.2, 1.1, 1.0, 0.9, 0.8, 0.7, 0.7, 0.8, 0.9, 1.0, 1.1, 1.2]"

definition monthly_breakdown_of :: "real \<Rightarrow> MonthlyEntry list" where
  \<comment> \<open>the loop that fills \<^verbatim>\<open>monthly_breakdown\<close>\<close>
  "monthly_breakdown_of total_emissions =
     map (\<lambda>(m, f). \<lparr>month = m, emissions = (total_emissions / 12) * f, factor = f\<rparr>)
       (List.enumerate 1 seasonal_factors)"

fun py_max_by :: "('a \<Rightarrow> real) \<Rightarrow> 'a list \<Rightarrow> py_error + 'a" where
  \<comment> \<open>\<^verbatim>\<open>max(xs, key=key)\<close>: the first item of greatest key\<close>
  "py_max_by key [] = Inl ValueError"
| "py_max_by key (x # xs) = Inr (foldl (\<lambda>best y. if key y > key best then y else best) x xs)"

definition calculate_advanced_kpis ::
  "CarbonCalculator \<Rightarrow> CompanyData \<Rightarrow> real \<Rightarrow> (string, real) dict \<Rightarrow> py_error + AdvancedKPIs" where
  "calculate_advanced_kpis self data total_emissions bd =
     (let employees_count = parse_employee_count (effectif data)
      in case kpi_sector_avg self data of
           Inl e \<Rightarrow> Inl e
         | Inr sector_avg \<Rightarrow>
      (case efficiency_ratio_of sector_avg total_emissions employees_count of
           Inl e \<Rightarrow> Inl e
         | Inr efficiency_ratio \<Rightarrow>
      (let score = min 100 (max 0 (efficiency_ratio * 50));
           grade = grade_of score;
           potential = reduction_potential_of bd;
           trajectory =
             [(''current'', total_emissions),
              (''target_2030'', total_emissions * 0.45),
              (''annual_reduction_needed'', total_emissions * 0.055),
              (''feasible_with_actions'', sum_list (dict_values potential))];
           cost = total_emissions * 100;
           equivalents =
             [(''trees_to_plant'', total_emissions * 40),
              (''cars_off_road'', total_emissions / 4.6),
              (''homes_energy_year'', total_emissions / 6.8),
              (''flights_paris_ny'', total_emissions / 1.8)];
           monthly = monthly_breakdown_of total_emissions
       in case py_div total_emissions (of_int employees_count) of
            Inl e \<Rightarrow> Inl e
          | Inr intensity \<Rightarrow>
       (case calculate_percentile self (secteur data) intensity of
            Inl e \<Rightarrow> Inl e
          | Inr percentile \<Rightarrow>
       (let peer =
              [(''percentile'', of_int percentile),
               (''sector_average'', co2e_per_employee sector_avg * of_int employees_count),
               (''best_in_class'', percentile_25 sector_avg * of_int employees_count),
               (''improvement_needed'',
                  max 0 (total_emissions - percentile_25 sector_avg * of_int employees_count))];
            certification =
              [(''iso_14001'', score \<ge> 70),
               (''b_corp'', score \<ge> 80 \<and> pourcentage_local data \<ge> 50),
               (''carbon_neutral'', sum_list (dict_values potential) \<ge> total_emissions * 0.8),
               (''science_based_targets'',
                  dict_get trajectory ''feasible_with_actions'' 0
                    \<ge> dict_get trajectory ''target_2030'' 0)]
        in case py_max_by snd bd of
             Inl e \<Rightarrow> Inl e
           | Inr primary \<Rightarrow>
        (case py_max_by snd potential of
             Inl e \<Rightarrow> Inl e
           | Inr quick \<Rightarrow>
        (let insights =
               [(''primary_focus'', fst primary),
                (''quick_win'', fst quick),
                (''long_term_strategy'',
                   if dict_get bd ''vehicules'' 0 > total_emissions * 0.2
                   then ''electrification'' else ''energy_efficiency'')]
         in Inr \<lparr>carbon_efficiency_score = py_round score 1,
                  reduction_potential = dict_map_values (\<lambda>v. py_round v 2) potential,
                  trajectory_2030 = dict_map_values (\<lambda>v. py_round v 2) trajectory,
                  sustainability_grade = grade,
                  cost_of_carbon = py_round cost 2,
                  equivalent_metrics = dict_map_values (\<lambda>v. py_round v 1) equivalents,
                  monthly_breakdown = monthly,
                  peer_comparison = dict_map_values (\<lambda>v. py_round v 2) peer,
                  certification_readiness = certification,
                  ai_insights = insights\<rparr>)))))))"

subsection \<open>Orchestrator\<close>

record EmissionResult = AdvancedKPIs +
  total_co2e :: real
  scope_1 :: real
  scope_2 :: real
  scope_3 :: real
  breakdown :: "(string, real) dict"
  recommendations :: "string list"
  benchmark_position :: string
  intensity_per_employee :: real
  intensity_per_revenue :: "real option"

definition calculate_emissions :: "CarbonCalculator \<Rightarrow> CompanyData \<Rightarrow> py_error + EmissionResult" where
  "calculate_emissions self company_data =
     (let s1 = calculate_scope_1 self company_data;
          s2 = calculate_scope_2 self company_data;
          s3 = calculate_scope_3 self company_data;
          total = s1 + s2 + s3;
          bd = calculate_detailed_breakdown self company_data
      in case generate_recommendations self company_data bd of
           Inl e \<Rightarrow> Inl e
         | Inr recs \<Rightarrow>
      (case analyze_benchmark self company_data total of
           Inl e \<Rightarrow> Inl e
         | Inr position \<Rightarrow>
      (let employees_count = parse_employee_count (effectif company_data);
           per_employee = (if employees_count > 0 then total / of_int employees_count else 0);
           per_revenue =
             (case chiffre_affaires company_data of
                None \<Rightarrow> None
              | Some ca \<Rightarrow> if ca \<noteq> 0 then Some (total / ca * 1000) else None)
       in case calculate_advanced_kpis self company_data total bd of
            Inl e \<Rightarrow> Inl e
          | Inr advanced_kpis \<Rightarrow>
              Inr \<lparr>carbon_efficiency_score = carbon_efficiency_score advanced_kpis,
                   reduction_potential = reduction_potential advanced_kpis,
                   trajectory_2030 = trajectory_2030 advanced_kpis,
                   sustainability_grade = sustainability_grade advanced_kpis,
                   cost_of_carbon = cost_of_carbon advanced_kpis,
                   equivalent_metrics = equivalent_metrics advanced_kpis,
                   monthly_breakdown = monthly_breakdown advanced_kpis,
                   peer_comparison = peer_comparison advanced_kpis,
                   certification_readiness = certification_readiness advanced_kpis,
                   ai_insights = ai_insights advanced_kpis,
                   total_co2e = py_round total 2,
                   scope_1 = py_round s1 2,
                   scope_2 = py_round s2 2,
                   scope_3 = py_round s3 2,
                   breakdown = bd,
                   recommendations = recs,
                   benchmark_position = position,
                   intensity_per_employee = py_round per_employee 2,
                   intensity_per_revenue =
                     (case per_revenue of
                        None \<Rightarrow> None
                      | Some v \<Rightarrow> if v \<noteq> 0 then Some (py_round v 4) else None)\<rparr>)))"


subsection \<open>Inputs and properties used in the statements\<close>

definition blank_company :: "string \<Rightarrow> string \<Rightarrow> CompanyData" where
  "blank_company sector band =
     \<lparr>nom = ''Test Company'', secteur = sector, effectif = band, chiffre_affaires = None,
      localisation = ''Paris, France'', electricite_kwh = 0, gaz_kwh = 0, carburants_litres = 0,
      vehicules_km_annuel = 0, vols_domestiques_km = 0, vols_internationaux_km = 0,
      montant_achats_annuel = 0, pourcentage_local = 0\<rparr>"

definition company_all_zero :: CompanyData where
  "company_all_zero = blank_company ''services'' ''10-49''"

definition company_electricity_only :: CompanyData where
  "company_electricity_only = (blank_company ''services'' ''10-49'')\<lparr>electricite_kwh := 10000\<rparr>"

definition company_gas_one :: CompanyData where
  "company_gas_one = (blank_company ''services'' ''10-49'')\<lparr>gaz_kwh := 1\<rparr>"

definition company_short_flights :: CompanyData where
  "company_short_flights =
     (blank_company ''services'' ''10-49'')
       \<lparr>vols_domestiques_km := 3900, vols_internationaux_km := 5750\<rparr>"

definition company_long_haul :: CompanyData where
  "company_long_haul = (blank_company ''logistique'' ''10-49'')\<lparr>vehicules_km_annuel := 120000\<rparr>"


definition nonneg_quantities :: "CompanyData \<Rightarrow> bool" where
  \<comment> \<open>the invariant of the questionnaire: quantities from 0, local share from 0 to 100\<close>
  "nonneg_quantities d =
     (0 \<le> electricite_kwh d \<and> 0 \<le> gaz_kwh d \<and> 0 \<le> carburants_litres d \<and>
      0 \<le> vehicules_km_annuel d \<and> 0 \<le> vols_domestiques_km d \<and>
      0 \<le> vols_internationaux_km d \<and> 0 \<le> montant_achats_annuel d \<and>
      0 \<le> pourcentage_local d \<and> pourcentage_local d \<le> 100)"

definition scopes_total :: "CarbonCalculator \<Rightarrow> CompanyData \<Rightarrow> real" where
  \<comment> \<open>\<^verbatim>\<open>scope_1 + scope_2 + scope_3\<close> as \<^verbatim>\<open>calculate_emissions\<close> adds them, before
      rounding\<close>
  "scopes_total self d = calculate_scope_1 self d + calculate_scope_2 self d + calculate_scope_3 self d"

definition returned_scopes_sum :: "EmissionResult \<Rightarrow> real" where
  "returned_scopes_sum r = scope_1 r + scope_2 r + scope_3 r"

definition unit_here :: "string \<Rightarrow> real option" where
  \<comment> \<open>a whole number at the head of the text that is followed by a space and the unit
      "kgCO2e" (with its subscript)\<close>
  "unit_here s =
     (let ds = takeWhile is_digit s; rest = dropWhile is_digit s
      in if ds \<noteq> [] \<and> starts_with rest ('' kgCO'' @ sub_two @ ''e'')
         then Some (of_nat (digits_value ds)) else None)"

fun embedded_search :: "string \<Rightarrow> real option" where
  "embedded_search [] = None"
| "embedded_search (c # cs) =
     (case unit_here (c # cs) of Some v \<Rightarrow> Some v | None \<Rightarrow> embedded_search cs)"

definition embedded_impact_spec :: "string \<Rightarrow> real" where
  \<comment> \<open>the spec's words "the numeric impact embedded in a recommendation string", read as
      the amount the text gives in kgCO2e: the first whole number written right before the
      unit, whatever word or sign stands before the number; to be compared with
      \<open>extract_co2_reduction\<close>, which is the source's reading\<close>
  "embedded_impact_spec s = (case embedded_search s of Some v \<Rightarrow> v | None \<Rightarrow> 0)"

definition states_reduction_directly :: "string \<Rightarrow> bool" where
  \<comment> \<open>the text gives its reduction in the form the source's pattern describes: the word
      "reduit" (with its accent), a space, the number, the unit\<close>
  "states_reduction_directly s = (re_search s \<noteq> None)"

definition reads_embedded :: "string \<Rightarrow> bool" where
  \<comment> \<open>on a text that states its reduction directly, the source reads the embedded amount\<close>
  "reads_embedded s =
     (states_reduction_directly s \<longrightarrow> extract_co2_reduction s = embedded_impact_spec s)"

definition strictly_descending :: "real list \<Rightarrow> bool" where
  "strictly_descending xs = sorted_wrt (>) xs"

definition descending :: "real list \<Rightarrow> bool" where
  "descending xs = sorted_wrt (\<ge>) xs"

definition monthly_total :: "MonthlyEntry list \<Rightarrow> real" where
  "monthly_total ms = sum_list (map emissions ms)"

definition sector_profile :: "CompanyData \<Rightarrow> SectorBenchmark" where
  \<comment> \<open>the profile the KPI synthesizer of a new calculator works with\<close>
  "sector_profile d = dict_get load_sector_benchmarks (secteur d) bench_services"

definition clamp_score :: "CompanyData \<Rightarrow> real \<Rightarrow> real" where
  \<comment> \<open>clamp(0, 100, (sector average per employee / company intensity per employee) * 50)\<close>
  "clamp_score d total_emissions =
     min 100 (max 0 (co2e_per_employee (sector_profile d)
                       / (total_emissions / of_int (parse_employee_count (effectif d))) * 50))"

section \<open>Properties\<close>

subsection \<open>Rounding is within half a unit and keeps bounds\<close>

lemma round_half_even_error: "\<bar>of_int (round_half_even x) - x\<bar> \<le> 1 / 2"
  unfolding round_half_even_def Let_def
  by (auto simp: abs_if) linarith+

lemma py_round_error: "\<bar>py_round x n - x\<bar> \<le> 1 / (2 * 10 ^ n)"
proof -
  let ?p = "(10::real) ^ n"
  have p: "0 < ?p" by simp
  have e: "\<bar>of_int (round_half_even (x * ?p)) - x * ?p\<bar> \<le> 1 / 2"
    by (rule round_half_even_error)
  have "py_round x n - x = (of_int (round_half_even (x * ?p)) - x * ?p) / ?p"
    using p by (simp add: py_round_def diff_divide_distrib)
  then have "\<bar>py_round x n - x\<bar> = \<bar>of_int (round_half_even (x * ?p)) - x * ?p\<bar> / ?p"
    using p by (simp add: abs_divide)
  also have "\<dots> \<le> (1 / 2) / ?p"
    by (rule divide_right_mono [OF e]) (use p in simp)
  finally show ?thesis by simp
qed

lemma py_round_2_error: "\<bar>py_round x 2 - x\<bar> \<le> 0.005"
  using py_round_error [of x 2] by simp

lemma round_half_even_nonneg: "0 \<le> x \<Longrightarrow> 0 \<le> round_half_even x"
  unfolding round_half_even_def Let_def by auto

lemma round_half_even_le: "x \<le> of_int n \<Longrightarrow> round_half_even x \<le> n"
  unfolding round_half_even_def Let_def
  by (auto simp: floor_le_iff)

lemma py_round_nonneg: "0 \<le> x \<Longrightarrow> 0 \<le> py_round x n"
  by (simp add: py_round_def round_half_even_nonneg)

lemma py_round_1_le_100: "x \<le> 100 \<Longrightarrow> py_round x 1 \<le> 100"
proof -
  assume "x \<le> 100"
  then have "x * 10 ^ 1 \<le> of_int 1000" by simp
  then have "round_half_even (x * 10 ^ 1) \<le> 1000" by (rule round_half_even_le)
  then have "(of_int (round_half_even (x * 10 ^ 1)) :: real) \<le> 1000" by linarith
  then show ?thesis by (simp add: py_round_def)
qed

lemma sum_list_round_error:
  "\<bar>sum_list (map (\<lambda>v. py_round v 2) xs) - sum_list xs\<bar> \<le> of_nat (length xs) * 0.005"
proof (induction xs)
  case Nil
  then show ?case by simp
next
  case (Cons x xs)
  have a: "\<bar>py_round x 2 - x\<bar> \<le> 0.005" by (rule py_round_2_error)
  have b: "sum_list (map (\<lambda>v. py_round v 2) (x # xs)) - sum_list (x # xs)
           = (py_round x 2 - x) + (sum_list (map (\<lambda>v. py_round v 2) xs) - sum_list xs)"
    by simp
  have c: "of_nat (length (x # xs)) * (0.005::real) = 0.005 + of_nat (length xs) * 0.005"
    by (simp add: algebra_simps)
  show ?case unfolding b c using a Cons.IH by linarith
qed

subsection \<open>Tables\<close>

lemma parse_employee_count_pos: "0 < parse_employee_count e"
  by (simp add: parse_employee_count_def)

lemma services_profile [simp]:
  "dict_getitem (sector_benchmarks new_CarbonCalculator) ''services'' = Inr bench_services"
  by (simp add: dict_getitem_def new_CarbonCalculator_def load_sector_benchmarks_def)

lemma logistique_profile [simp]:
  "dict_get (sector_benchmarks new_CarbonCalculator) ''logistique'' dflt = bench_logistique"
  by (simp add: dict_get_def new_CarbonCalculator_def load_sector_benchmarks_def)


subsection \<open>Employee bands and the guard of the benchmark analyzer\<close>

text \<open>
  Claim C9. The employee band is resolved by the fixed table \<open>1-9\<close> to 5, \<open>10-49\<close> to 25,
  \<open>50-249\<close> to 125, \<open>250+\<close> to 500, and every other band to 25. When the resolved count is
  zero the body of the benchmark analyzer returns the label for insufficient data, and
  the analyzer never raises a division error.
\<close>

theorem employee_band_table:
  "parse_employee_count ''1-9'' = 5 \<and> parse_employee_count ''10-49'' = 25 \<and>
   parse_employee_count ''50-249'' = 125 \<and> parse_employee_count ''250+'' = 500 \<and>
   (band \<notin> set [''1-9'', ''10-49'', ''50-249'', ''250+''] \<longrightarrow> parse_employee_count band = 25) \<and>
   benchmark_label sector_data 0 total_emissions
     = ''Donn'' @ e_acute @ ''es insuffisantes pour le benchmark'' \<and>
   analyze_benchmark self data total_emissions \<noteq> Inl ZeroDivisionError"
  by (auto simp: parse_employee_count_def benchmark_label_def analyze_benchmark_def
           benchmark_sector_data_def dict_getitem_def split: sum.splits option.splits)

theorem employee_band_table_witness:
  "''1000+'' \<notin> set [''1-9'', ''10-49'', ''50-249'', ''250+''] \<and> parse_employee_count ''1000+'' = 25"
  using employee_band_table [of "''1000+''"] by simp

subsection \<open>Breakdown and upstream residual\<close>

lemma new_factors [simp]:
  "get_factor (ademe_processor new_CarbonCalculator) ''electricite_france'' = 0.0571"
  "get_factor (ademe_processor new_CarbonCalculator) ''gaz_naturel'' = 0.227"
  "get_factor (ademe_processor new_CarbonCalculator) ''essence'' = 2.8"
  "get_factor (ademe_processor new_CarbonCalculator) ''voiture_essence'' = 0.193"
  "get_factor (ademe_processor new_CarbonCalculator) ''avion_domestique'' = 0.23"
  "get_factor (ademe_processor new_CarbonCalculator) ''avion_international'' = 0.156"
  "get_factor (ademe_processor new_CarbonCalculator) ''achats_biens'' = 0.45"
  "get_factor (ademe_processor new_CarbonCalculator) ''transport_reduction'' = 0.2"
  by (simp_all add: get_factor_def dict_get_def new_CarbonCalculator_def
        new_ADEMEDataProcessor_def load_ademe_data_def)

lemma breakdown_values:
  "dict_values (calculate_detailed_breakdown self d)
     = map (\<lambda>v. py_round v 2) (dict_values (raw_breakdown self d))"
  by (simp add: calculate_detailed_breakdown_def dict_values_def dict_map_values_def
        raw_breakdown_def Let_def)

lemma raw_breakdown_length: "length (dict_values (raw_breakdown self d)) = 7"
  by (simp add: dict_values_def raw_breakdown_def Let_def)

lemma scopes_total_raw:
  "scopes_total self d = sum_list (dict_values (raw_breakdown self d)) + upstream_energy d"
  by (simp add: scopes_total_def calculate_scope_1_def calculate_scope_2_def
        calculate_scope_3_def raw_breakdown_def dict_values_def Let_def)

lemma raw_breakdown_nonneg:
  assumes "nonneg_quantities d"
  shows "list_all (\<lambda>v. 0 \<le> v) (dict_values (raw_breakdown new_CarbonCalculator d))"
proof -
  from assms have "0 \<le> montant_achats_annuel d" "pourcentage_local d \<le> 100"
    by (simp_all add: nonneg_quantities_def)
  then have "0 \<le> montant_achats_annuel d * (1 - pourcentage_local d / 500)"
    by (intro mult_nonneg_nonneg) simp_all
  then have "0 \<le> montant_achats_annuel d * 0.45 * (1 - pourcentage_local d / 100 * 0.2)"
    by (simp add: algebra_simps)
  with assms show ?thesis
    by (simp add: nonneg_quantities_def raw_breakdown_def dict_values_def Let_def)
qed

text \<open>
  Claim C6, as amended. For quantities from 0 and a local share from 0 to 100, every value
  of the category breakdown is at least 0. The total of the three scopes exceeds the sum
  of the categories before rounding by exactly the upstream residual; the breakdown that
  is returned holds the categories rounded to two decimals, so the total exceeds its sum by
  the upstream residual up to 0.035 (seven roundings of at most 0.005).
\<close>

theorem breakdown_nonneg_residual_within_rounding:
  assumes "nonneg_quantities d"
  shows "list_all (\<lambda>v. 0 \<le> v) (dict_values (calculate_detailed_breakdown new_CarbonCalculator d)) \<and>
         scopes_total new_CarbonCalculator d
           - sum_list (dict_values (raw_breakdown new_CarbonCalculator d)) = upstream_energy d \<and>
         \<bar>scopes_total new_CarbonCalculator d
            - sum_list (dict_values (calculate_detailed_breakdown new_CarbonCalculator d))
            - upstream_energy d\<bar> \<le> 0.035"
proof -
  let ?raw = "dict_values (raw_breakdown new_CarbonCalculator d)"
  have "list_all (\<lambda>v. 0 \<le> v) ?raw"
    using assms by (rule raw_breakdown_nonneg)
  then have nonneg: "list_all (\<lambda>v. 0 \<le> v) (map (\<lambda>v. py_round v 2) ?raw)"
    by (simp add: list_all_iff py_round_nonneg)
  have "\<bar>sum_list (map (\<lambda>v. py_round v 2) ?raw) - sum_list ?raw\<bar> \<le> of_nat (length ?raw) * 0.005"
    by (rule sum_list_round_error)
  then have err: "\<bar>sum_list (map (\<lambda>v. py_round v 2) ?raw) - sum_list ?raw\<bar> \<le> 0.035"
    by (simp add: raw_breakdown_length)
  have tot: "scopes_total new_CarbonCalculator d = sum_list ?raw + upstream_energy d"
    by (rule scopes_total_raw)
  show ?thesis
    unfolding breakdown_values tot using nonneg err by (simp add: abs_if split: if_splits)
qed

theorem breakdown_nonneg_residual_within_rounding_witness:
  "nonneg_quantities company_gas_one \<and>
   \<bar>scopes_total new_CarbonCalculator company_gas_one
      - sum_list (dict_values (calculate_detailed_breakdown new_CarbonCalculator company_gas_one))
      - upstream_energy company_gas_one\<bar> \<le> 0.035"
proof -
  have h: "nonneg_quantities company_gas_one"
    by (simp add: nonneg_quantities_def company_gas_one_def blank_company_def)
  show ?thesis using h breakdown_nonneg_residual_within_rounding [OF h] by simp
qed

text \<open>
  For one kWh of gas the total exceeds the sum of the returned breakdown by 0.0426, while the
  upstream residual is 0.0456.
\<close>

lemma gas_one_breakdown:
  "calculate_detailed_breakdown new_CarbonCalculator company_gas_one =
     [(''electricite'', 0), (''gaz'', 0.23), (''carburants'', 0), (''vehicules'', 0),
      (''vols_domestiques'', 0), (''vols_internationaux'', 0), (''achats'', 0)]"
  by (simp add: calculate_detailed_breakdown_def raw_breakdown_def dict_map_values_def
        company_gas_one_def blank_company_def py_round_def round_half_even_def Let_def)

lemma gas_one_scopes:
  "calculate_scope_1 new_CarbonCalculator company_gas_one = 0.227"
  "calculate_scope_2 new_CarbonCalculator company_gas_one = 0"
  "calculate_scope_3 new_CarbonCalculator company_gas_one = 0.0456"
  by (simp_all add: calculate_scope_1_def calculate_scope_2_def calculate_scope_3_def
        upstream_energy_def company_gas_one_def blank_company_def Let_def)

lemma gas_one_nonneg: "nonneg_quantities company_gas_one"
  by (simp add: nonneg_quantities_def company_gas_one_def blank_company_def)

lemma gas_one_upstream: "upstream_energy company_gas_one = 0.0456"
  by (simp add: upstream_energy_def company_gas_one_def blank_company_def)

theorem residual_not_exact_counterexample:
  "nonneg_quantities company_gas_one \<and>
   scopes_total new_CarbonCalculator company_gas_one
     - sum_list (dict_values (calculate_detailed_breakdown new_CarbonCalculator company_gas_one))
     = 0.0426 \<and>
   upstream_energy company_gas_one = 0.0456"
  by (simp add: gas_one_breakdown scopes_total_def gas_one_scopes dict_values_def
        gas_one_nonneg gas_one_upstream)

subsection \<open>When the stages return\<close>

lemma new_profile [simp]:
  "dict_get (sector_benchmarks new_CarbonCalculator) (secteur d) bench_services = sector_profile d"
  by (simp add: sector_profile_def new_CarbonCalculator_def)

lemma kpi_sector_avg_new [simp]:
  "kpi_sector_avg new_CarbonCalculator d = Inr (sector_profile d)"
  by (simp add: kpi_sector_avg_def)

lemma benchmark_sector_data_new [simp]:
  "benchmark_sector_data new_CarbonCalculator d = Inr (sector_profile d)"
  by (simp add: benchmark_sector_data_def)

lemma calculate_percentile_new:
  "\<exists>p. calculate_percentile new_CarbonCalculator sector intensity = Inr p"
  by (simp add: calculate_percentile_def percentile_sector_data_def)

lemma analyze_benchmark_new:
  "analyze_benchmark new_CarbonCalculator d tot
     = Inr (benchmark_label (sector_profile d) (parse_employee_count (effectif d)) tot)"
  by (simp add: analyze_benchmark_def)

lemma efficiency_ratio_returns:
  assumes "tot \<noteq> 0"
  shows "efficiency_ratio_of sp tot (parse_employee_count e)
           = Inr (co2e_per_employee sp / (tot / of_int (parse_employee_count e)))"
  using assms parse_employee_count_pos [of e]
  by (simp add: efficiency_ratio_of_def py_div_def)

lemma py_max_by_returns: "xs \<noteq> [] \<Longrightarrow> \<exists>m. py_max_by key xs = Inr m"
  by (cases xs) simp_all

lemma kpis_returned:
  assumes "tot \<noteq> 0" and "bd \<noteq> []"
  shows "\<exists>k. calculate_advanced_kpis new_CarbonCalculator d tot bd = Inr k \<and>
             carbon_efficiency_score k = py_round (clamp_score d tot) 1 \<and>
             monthly_breakdown k = monthly_breakdown_of tot"
proof -
  obtain p where p: "calculate_percentile new_CarbonCalculator (secteur d)
                       (tot / of_int (parse_employee_count (effectif d))) = Inr p"
    using calculate_percentile_new by blast
  obtain m1 where m1: "py_max_by snd bd = Inr m1"
    using assms(2) py_max_by_returns by blast
  have "reduction_potential_of bd \<noteq> []"
    using assms(2) by (simp add: reduction_potential_of_def)
  then obtain m2 where m2: "py_max_by snd (reduction_potential_of bd) = Inr m2"
    using py_max_by_returns by blast
  have pd: "py_div tot (of_int (parse_employee_count (effectif d)))
              = Inr (tot / of_int (parse_employee_count (effectif d)))"
    using parse_employee_count_pos [of "effectif d"] by (simp add: py_div_def)
  show ?thesis
    by (simp add: calculate_advanced_kpis_def Let_def efficiency_ratio_returns [OF assms(1)]
          pd p m1 m2 clamp_score_def)
qed

lemma kpis_fields:
  assumes "calculate_advanced_kpis self d tot bd = Inr k"
  shows "monthly_breakdown k = monthly_breakdown_of tot"
  using assms
  by (auto simp: calculate_advanced_kpis_def Let_def split: sum.splits)

lemma source_recommendations_returns:
  assumes "tot \<noteq> 0"
  shows "\<exists>recs. source_recommendations d tot s e = Inr recs"
  using assms by (simp add: source_recommendations_def py_div_def Let_def)

lemma recommendations_loop_returns:
  assumes "tot \<noteq> 0"
  shows "\<exists>recs. recommendations_loop d tot xs acc = Inr recs"
proof (induction xs arbitrary: acc)
  case Nil
  show ?case by simp
next
  case (Cons x xs)
  obtain s e where x: "x = (s, e)" by (cases x)
  obtain new where "source_recommendations d tot s e = Inr new"
    using source_recommendations_returns [OF assms] by blast
  with Cons show ?case by (simp add: x)
qed

lemma recommendations_loop_raises:
  "recommendations_loop d 0 (x # xs) acc = Inl ZeroDivisionError"
  by (cases x) (simp add: source_recommendations_def py_div_def)

lemma recommendations_sector_data_new:
  "\<exists>sd. recommendations_sector_data new_CarbonCalculator d = Inr sd"
  by (simp add: recommendations_sector_data_def)

lemma generate_recommendations_returns:
  assumes "sum_list (dict_values bd) \<noteq> 0"
  shows "\<exists>recs. generate_recommendations new_CarbonCalculator d bd = Inr recs"
proof -
  obtain sd where sd: "recommendations_sector_data new_CarbonCalculator d = Inr sd"
    using recommendations_sector_data_new by blast
  obtain recs where "recommendations_loop d (sum_list (dict_values bd))
                       (take 5 (sorted_desc snd bd)) [] = Inr recs"
    using recommendations_loop_returns [OF assms] by blast
  then show ?thesis
    by (simp add: generate_recommendations_def Let_def sd)
qed

lemma generate_recommendations_raises:
  assumes "sum_list (dict_values bd) = 0" and "bd \<noteq> []"
  shows "generate_recommendations new_CarbonCalculator d bd = Inl ZeroDivisionError"
proof -
  obtain sd where sd: "recommendations_sector_data new_CarbonCalculator d = Inr sd"
    using recommendations_sector_data_new by blast
  have "length (sorted_desc snd bd) = length bd"
    by (simp add: sorted_desc_def)
  with assms(2) have "take 5 (sorted_desc snd bd) \<noteq> []"
    by (cases "sorted_desc snd bd") auto
  then obtain x xs where "take 5 (sorted_desc snd bd) = x # xs"
    by (cases "take 5 (sorted_desc snd bd)") auto
  then show ?thesis
    by (simp add: generate_recommendations_def Let_def sd assms(1) recommendations_loop_raises)
qed

lemma breakdown_nonempty: "calculate_detailed_breakdown self d \<noteq> []"
  by (simp add: calculate_detailed_breakdown_def raw_breakdown_def dict_map_values_def Let_def)

lemma calculate_emissions_raises:
  assumes "sum_list (dict_values (calculate_detailed_breakdown new_CarbonCalculator d)) = 0"
  shows "calculate_emissions new_CarbonCalculator d = Inl ZeroDivisionError"
  by (simp add: calculate_emissions_def Let_def
        generate_recommendations_raises [OF assms breakdown_nonempty])

lemma calculate_emissions_returns:
  assumes "sum_list (dict_values (calculate_detailed_breakdown new_CarbonCalculator d)) \<noteq> 0"
      and "scopes_total new_CarbonCalculator d \<noteq> 0"
  shows "\<exists>r. calculate_emissions new_CarbonCalculator d = Inr r"
proof -
  obtain recs where recs: "generate_recommendations new_CarbonCalculator d
                             (calculate_detailed_breakdown new_CarbonCalculator d) = Inr recs"
    using generate_recommendations_returns [OF assms(1)] by blast
  obtain k where k: "calculate_advanced_kpis new_CarbonCalculator d
                       (scopes_total new_CarbonCalculator d)
                       (calculate_detailed_breakdown new_CarbonCalculator d) = Inr k"
    using kpis_returned [OF assms(2) breakdown_nonempty] by blast
  show ?thesis
    using recs k
    by (simp add: calculate_emissions_def Let_def analyze_benchmark_new scopes_total_def)
qed

lemma calculate_emissions_fields:
  assumes "calculate_emissions self d = Inr r"
  shows "total_co2e r = py_round (scopes_total self d) 2"
    and "scope_1 r = py_round (calculate_scope_1 self d) 2"
    and "scope_2 r = py_round (calculate_scope_2 self d) 2"
    and "scope_3 r = py_round (calculate_scope_3 self d) 2"
    and "breakdown r = calculate_detailed_breakdown self d"
    and "generate_recommendations self d (calculate_detailed_breakdown self d)
           = Inr (recommendations r)"
    and "monthly_breakdown r = monthly_breakdown_of (scopes_total self d)"
  using assms
  by (auto simp: calculate_emissions_def Let_def scopes_total_def dest: kpis_fields
           split: sum.splits)

subsection \<open>The example inputs\<close>

lemma all_zero_nonneg: "nonneg_quantities company_all_zero"
  by (simp add: nonneg_quantities_def company_all_zero_def blank_company_def)

lemma all_zero_breakdown:
  "calculate_detailed_breakdown new_CarbonCalculator company_all_zero =
     [(''electricite'', 0), (''gaz'', 0), (''carburants'', 0), (''vehicules'', 0),
      (''vols_domestiques'', 0), (''vols_internationaux'', 0), (''achats'', 0)]"
  by (simp add: calculate_detailed_breakdown_def raw_breakdown_def dict_map_values_def
        company_all_zero_def blank_company_def py_round_def round_half_even_def Let_def)

lemma all_zero_total: "scopes_total new_CarbonCalculator company_all_zero = 0"
  by (simp add: scopes_total_def calculate_scope_1_def calculate_scope_2_def
        calculate_scope_3_def upstream_energy_def company_all_zero_def blank_company_def Let_def)

lemma electricity_only_breakdown:
  "calculate_detailed_breakdown new_CarbonCalculator company_electricity_only =
     [(''electricite'', 571), (''gaz'', 0), (''carburants'', 0), (''vehicules'', 0),
      (''vols_domestiques'', 0), (''vols_internationaux'', 0), (''achats'', 0)]"
  by (simp add: calculate_detailed_breakdown_def raw_breakdown_def dict_map_values_def
        company_electricity_only_def blank_company_def py_round_def round_half_even_def Let_def)

lemma electricity_only_scopes:
  "calculate_scope_1 new_CarbonCalculator company_electricity_only = 0"
  "calculate_scope_2 new_CarbonCalculator company_electricity_only = 571"
  "calculate_scope_3 new_CarbonCalculator company_electricity_only = 134"
  "upstream_energy company_electricity_only = 134"
  by (simp_all add: calculate_scope_1_def calculate_scope_2_def calculate_scope_3_def
        upstream_energy_def company_electricity_only_def blank_company_def Let_def)

lemma electricity_only_total: "scopes_total new_CarbonCalculator company_electricity_only = 705"
  by (simp add: scopes_total_def electricity_only_scopes)

lemma electricity_only_returns:
  "\<exists>r. calculate_emissions new_CarbonCalculator company_electricity_only = Inr r"
  by (rule calculate_emissions_returns)
     (simp_all add: electricity_only_breakdown electricity_only_total dict_values_def)

lemma gas_one_returns:
  "\<exists>r. calculate_emissions new_CarbonCalculator company_gas_one = Inr r"
  by (rule calculate_emissions_returns)
     (simp_all add: gas_one_breakdown scopes_total_def gas_one_scopes dict_values_def)

lemma electricity_only_rounded:
  "py_round (calculate_scope_1 new_CarbonCalculator company_electricity_only) 2 = 0"
  "py_round (calculate_scope_2 new_CarbonCalculator company_electricity_only) 2 = 571"
  "py_round (calculate_scope_3 new_CarbonCalculator company_electricity_only) 2 = 134"
  "py_round (scopes_total new_CarbonCalculator company_electricity_only) 2 = 705"
  by (simp_all add: electricity_only_scopes electricity_only_total py_round_def
        round_half_even_def Let_def)

lemma gas_one_rounded:
  "py_round (calculate_scope_1 new_CarbonCalculator company_gas_one) 2 = 0.23"
  "py_round (calculate_scope_2 new_CarbonCalculator company_gas_one) 2 = 0"
  "py_round (calculate_scope_3 new_CarbonCalculator company_gas_one) 2 = 0.05"
  "py_round (scopes_total new_CarbonCalculator company_gas_one) 2 = 0.27"
  by (simp_all add: gas_one_scopes scopes_total_def py_round_def round_half_even_def Let_def)

lemma py_round_2_error_200: "\<bar>py_round x 2 - x\<bar> \<le> 1 / 200"
  using py_round_2_error [of x] by simp

subsection \<open>Fail-soft policy\<close>

text \<open>
  Claim C3. The input whose quantities are all zero is an input with quantities from 0;
  on it \<^verbatim>\<open>calculate_emissions\<close> raises \<^verbatim>\<open>ZeroDivisionError\<close> and returns no result.
\<close>

theorem all_zero_input_raises:
  "nonneg_quantities company_all_zero \<and>
   calculate_emissions new_CarbonCalculator company_all_zero = Inl ZeroDivisionError"
proof -
  have "sum_list (dict_values (calculate_detailed_breakdown new_CarbonCalculator company_all_zero)) = 0"
    by (simp add: all_zero_breakdown dict_values_def)
  then show ?thesis
    by (simp add: all_zero_nonneg calculate_emissions_raises)
qed

subsection \<open>Electricity only\<close>

text \<open>
  Claim C7. For 10000 kWh of electricity, everything else zero, sector \<open>services\<close> and band
  \<open>10-49\<close>, the engine returns scope 2 = 571, scope 1 = 0, scope 3 = 134, which is the
  upstream residual, and the total 705. In general scope 2 is the electricity in kWh
  times the electricity factor, which is 0.0571 in the table.
\<close>

theorem electricity_only_example:
  "map_sum id scope_1 (calculate_emissions new_CarbonCalculator company_electricity_only) = Inr 0 \<and>
   map_sum id scope_2 (calculate_emissions new_CarbonCalculator company_electricity_only) = Inr 571 \<and>
   map_sum id scope_3 (calculate_emissions new_CarbonCalculator company_electricity_only) = Inr 134 \<and>
   upstream_energy company_electricity_only = 134 \<and>
   map_sum id total_co2e (calculate_emissions new_CarbonCalculator company_electricity_only) = Inr 705 \<and>
   calculate_scope_2 self d = electricite_kwh d * get_factor (ademe_processor self) ''electricite_france'' \<and>
   get_factor (ademe_processor new_CarbonCalculator) ''electricite_france'' = 0.0571"
proof -
  obtain r where r: "calculate_emissions new_CarbonCalculator company_electricity_only = Inr r"
    using electricity_only_returns by blast
  have c: "map_sum id scope_1 (calculate_emissions new_CarbonCalculator company_electricity_only) = Inr 0"
    "map_sum id scope_2 (calculate_emissions new_CarbonCalculator company_electricity_only) = Inr 571"
    "map_sum id scope_3 (calculate_emissions new_CarbonCalculator company_electricity_only) = Inr 134"
    "map_sum id total_co2e (calculate_emissions new_CarbonCalculator company_electricity_only) = Inr 705"
    using calculate_emissions_fields(1-4) [OF r]
    by (simp_all add: r electricity_only_rounded)
  have g: "calculate_scope_2 self d
             = electricite_kwh d * get_factor (ademe_processor self) ''electricite_france''"
    by (simp add: calculate_scope_2_def)
  have t: "get_factor (ademe_processor new_CarbonCalculator) ''electricite_france'' = 0.0571"
    by simp
  show ?thesis
    by (intro conjI c g t electricity_only_scopes(4))
qed

subsection \<open>Total and scopes\<close>

text \<open>
  For one kWh of gas the returned total is 0.27 while the returned scopes add up to 0.28.
\<close>

theorem total_not_sum_counterexample:
  "nonneg_quantities company_gas_one \<and>
   map_sum id total_co2e (calculate_emissions new_CarbonCalculator company_gas_one) = Inr 0.27 \<and>
   map_sum id returned_scopes_sum (calculate_emissions new_CarbonCalculator company_gas_one) = Inr 0.28"
proof -
  obtain r where r: "calculate_emissions new_CarbonCalculator company_gas_one = Inr r"
    using gas_one_returns by blast
  show ?thesis
    using calculate_emissions_fields(1-4) [OF r]
    by (simp add: r gas_one_nonneg gas_one_rounded returned_scopes_sum_def)
qed

text \<open>
  Claim C5, as amended. Whenever the engine returns a result, its total is the sum of the
  three scopes rounded to two decimals, each returned scope is that scope rounded to two
  decimals, and so the returned total differs from the sum of the returned scopes by at
  most 0.02.
\<close>

theorem total_is_rounded_sum:
  assumes "calculate_emissions self d = Inr r"
  shows "total_co2e r
           = py_round (calculate_scope_1 self d + calculate_scope_2 self d + calculate_scope_3 self d) 2 \<and>
         scope_1 r = py_round (calculate_scope_1 self d) 2 \<and>
         scope_2 r = py_round (calculate_scope_2 self d) 2 \<and>
         scope_3 r = py_round (calculate_scope_3 self d) 2 \<and>
         \<bar>total_co2e r - (scope_1 r + scope_2 r + scope_3 r)\<bar> \<le> 0.02"
proof -
  let ?a = "calculate_scope_1 self d" and ?b = "calculate_scope_2 self d"
    and ?c = "calculate_scope_3 self d"
  have f: "total_co2e r = py_round (?a + ?b + ?c) 2" "scope_1 r = py_round ?a 2"
    "scope_2 r = py_round ?b 2" "scope_3 r = py_round ?c 2"
    using calculate_emissions_fields(1-4) [OF assms] by (simp_all add: scopes_total_def)
  have "\<bar>py_round (?a + ?b + ?c) 2 - (?a + ?b + ?c)\<bar> \<le> 1 / 200" "\<bar>py_round ?a 2 - ?a\<bar> \<le> 1 / 200"
    "\<bar>py_round ?b 2 - ?b\<bar> \<le> 1 / 200" "\<bar>py_round ?c 2 - ?c\<bar> \<le> 1 / 200"
    by (rule py_round_2_error_200)+
  then have "\<bar>py_round (?a + ?b + ?c) 2 - (py_round ?a 2 + py_round ?b 2 + py_round ?c 2)\<bar> \<le> 1 / 50"
    by linarith
  with f show ?thesis by simp
qed

theorem total_is_rounded_sum_witness:
  "\<exists>r. calculate_emissions new_CarbonCalculator company_gas_one = Inr r \<and>
       total_co2e r = 0.27 \<and> \<bar>total_co2e r - (scope_1 r + scope_2 r + scope_3 r)\<bar> \<le> 0.02"
proof -
  obtain r where r: "calculate_emissions new_CarbonCalculator company_gas_one = Inr r"
    using gas_one_returns by blast
  show ?thesis
    using r total_is_rounded_sum [OF r] calculate_emissions_fields(1) [OF r]
    by (simp add: gas_one_rounded)
qed

subsection \<open>Efficiency score\<close>

lemma clamp_score_bounds: "0 \<le> clamp_score d tot \<and> clamp_score d tot \<le> 100"
  by (simp add: clamp_score_def)

lemma electricity_only_clamp: "clamp_score company_electricity_only 705 = 350 / 47"
  by (simp add: clamp_score_def sector_profile_def dict_get_def load_sector_benchmarks_def
        bench_services_def parse_employee_count_def company_electricity_only_def
        blank_company_def)

lemma electricity_only_score: "py_round (clamp_score company_electricity_only 705) 1 = 7.4"
  by (simp add: electricity_only_clamp py_round_def round_half_even_def Let_def)

lemma kpis_raise_on_zero_total:
  "calculate_advanced_kpis new_CarbonCalculator d 0 bd = Inl ZeroDivisionError"
  using parse_employee_count_pos [of "effectif d"]
  by (simp add: calculate_advanced_kpis_def Let_def efficiency_ratio_of_def py_div_def)

text \<open>
  With a total of zero the KPI synthesizer raises \<^verbatim>\<open>ZeroDivisionError\<close>, and for the
  electricity-only input, whose total is 705, it returns the score 7.4 while the clamped
  ratio is 350/47.
\<close>

theorem efficiency_score_counterexample:
  "scopes_total new_CarbonCalculator company_all_zero = 0 \<and>
   calculate_advanced_kpis new_CarbonCalculator company_all_zero 0
     (calculate_detailed_breakdown new_CarbonCalculator company_all_zero) = Inl ZeroDivisionError \<and>
   scopes_total new_CarbonCalculator company_electricity_only = 705 \<and>
   map_sum id carbon_efficiency_score
     (calculate_advanced_kpis new_CarbonCalculator company_electricity_only 705
        (calculate_detailed_breakdown new_CarbonCalculator company_electricity_only)) = Inr 7.4 \<and>
   clamp_score company_electricity_only 705 = 350 / 47"
proof -
  have "(705::real) \<noteq> 0" by simp
  then obtain k where
    "calculate_advanced_kpis new_CarbonCalculator company_electricity_only 705
       (calculate_detailed_breakdown new_CarbonCalculator company_electricity_only) = Inr k"
    "carbon_efficiency_score k = py_round (clamp_score company_electricity_only 705) 1"
    using kpis_returned [OF _ breakdown_nonempty] by blast
  then have "map_sum id carbon_efficiency_score
     (calculate_advanced_kpis new_CarbonCalculator company_electricity_only 705
        (calculate_detailed_breakdown new_CarbonCalculator company_electricity_only)) = Inr 7.4"
    by (simp add: electricity_only_score [unfolded One_nat_def])
  then show ?thesis
    by (intro conjI all_zero_total kpis_raise_on_zero_total electricity_only_total
          electricity_only_clamp)
qed

text \<open>
  Claim C2, as amended. For every company data, every total other than zero and every
  breakdown with at least one category, the KPI synthesizer returns a score; the score is
  clamp(0, 100, (sector average per employee / company intensity per employee) * 50)
  rounded to one decimal, and it lies between 0 and 100.
\<close>

theorem efficiency_score_rounded_clamp:
  assumes "tot \<noteq> 0" and "bd \<noteq> []"
  shows "\<exists>k. calculate_advanced_kpis new_CarbonCalculator d tot bd = Inr k \<and>
             carbon_efficiency_score k = py_round (clamp_score d tot) 1 \<and>
             0 \<le> carbon_efficiency_score k \<and> carbon_efficiency_score k \<le> 100"
proof -
  obtain k where k: "calculate_advanced_kpis new_CarbonCalculator d tot bd = Inr k"
    "carbon_efficiency_score k = py_round (clamp_score d tot) 1"
    using kpis_returned [OF assms] by blast
  have b: "0 \<le> clamp_score d tot" "clamp_score d tot \<le> 100"
    using clamp_score_bounds [of d tot] by simp_all
  have "0 \<le> py_round (clamp_score d tot) 1"
    by (rule py_round_nonneg [OF b(1)])
  moreover have "py_round (clamp_score d tot) 1 \<le> 100"
    by (rule py_round_1_le_100 [OF b(2)])
  ultimately show ?thesis using k by simp
qed

theorem efficiency_score_rounded_clamp_witness:
  "(705::real) \<noteq> 0 \<and> calculate_detailed_breakdown new_CarbonCalculator company_electricity_only \<noteq> [] \<and>
   (\<exists>k. calculate_advanced_kpis new_CarbonCalculator company_electricity_only 705
           (calculate_detailed_breakdown new_CarbonCalculator company_electricity_only) = Inr k \<and>
        carbon_efficiency_score k = 7.4 \<and>
        0 \<le> carbon_efficiency_score k \<and> carbon_efficiency_score k \<le> 100)"
proof -
  have h: "(705::real) \<noteq> 0" by simp
  show ?thesis
    using efficiency_score_rounded_clamp
      [OF h breakdown_nonempty [of new_CarbonCalculator company_electricity_only],
       of company_electricity_only]
    by (simp add: electricity_only_score [unfolded One_nat_def] breakdown_nonempty)
qed

subsection \<open>Monthly distribution\<close>

text \<open>
  Claim C1. The twelve monthly emissions are a twelfth of the total times the seasonal
  weights. The weights add up to 11.4, not to 12, so the months add up to 95 percent of the
  total: for the electricity-only input the returned total is 705 and the returned months
  add up to 669.75.
\<close>

theorem monthly_weights_lose_five_percent:
  "sum_list seasonal_factors = 11.4 \<and>
   monthly_total (monthly_breakdown_of total_emissions) = total_emissions * 0.95 \<and>
   map_sum id total_co2e (calculate_emissions new_CarbonCalculator company_electricity_only)
     = Inr 705 \<and>
   map_sum id (monthly_total \<circ> monthly_breakdown)
     (calculate_emissions new_CarbonCalculator company_electricity_only) = Inr 669.75"
proof -
  have m: "monthly_total (monthly_breakdown_of t) = t * 0.95" for t
    by (simp add: seasonal_factors_def monthly_total_def monthly_breakdown_of_def
          enumerate_eq_zip upt_rec)
  have s: "sum_list seasonal_factors = 11.4"
    by (simp add: seasonal_factors_def)
  obtain r where r: "calculate_emissions new_CarbonCalculator company_electricity_only = Inr r"
    using electricity_only_returns by blast
  have c: "map_sum id total_co2e (calculate_emissions new_CarbonCalculator company_electricity_only)
             = Inr 705"
    using calculate_emissions_fields(1) [OF r] by (simp add: r electricity_only_rounded)
  have "monthly_total (monthly_breakdown r) = 705 * 0.95"
    using calculate_emissions_fields(7) [OF r] by (simp only: m electricity_only_total)
  then have e: "map_sum id (monthly_total \<circ> monthly_breakdown)
     (calculate_emissions new_CarbonCalculator company_electricity_only) = Inr 669.75"
    by (simp add: r)
  show ?thesis
    by (intro conjI s m c e)
qed

subsection \<open>Fallback profiles for an unknown sector\<close>







subsection \<open>Printed numbers\<close>

lemma digit_char_facts:
  assumes "k < 10"
  shows "is_digit (digit_char k)" and "of_char (digit_char k) = 48 + k"
    and "digit_char k \<noteq> CHR ''r''" and "digit_char k \<noteq> CHR '' ''"
proof -
  from assms have "k = 0 \<or> k = 1 \<or> k = 2 \<or> k = 3 \<or> k = 4 \<or> k = 5 \<or> k = 6 \<or> k = 7 \<or>
                   k = 8 \<or> k = 9"
    by arith
  then have "is_digit (digit_char k) \<and> of_char (digit_char k) = 48 + k \<and>
             digit_char k \<noteq> CHR ''r'' \<and> digit_char k \<noteq> CHR '' ''"
    by (elim disjE) (simp_all add: digit_char_def is_digit_def)
  then show "is_digit (digit_char k)" and "of_char (digit_char k) = 48 + k"
    and "digit_char k \<noteq> CHR ''r''" and "digit_char k \<noteq> CHR '' ''"
    by simp_all
qed

lemma str_nat_digits: "list_all is_digit (str_nat n)"
proof (induction n rule: str_nat.induct)
  case (1 n)
  show ?case
  proof (cases "n < 10")
    case True
    then show ?thesis by (simp add: str_nat.simps [of n] digit_char_facts)
  next
    case False
    with 1 show ?thesis by (simp add: str_nat.simps [of n] digit_char_facts)
  qed
qed

lemma str_nat_nonempty: "str_nat n \<noteq> []"
  by (simp add: str_nat.simps [of n])

lemma digits_value_snoc: "digits_value (xs @ [c]) = 10 * digits_value xs + (of_char c - 48)"
  by (simp add: digits_value_def)

lemma digits_value_str_nat: "digits_value (str_nat n) = n"
proof (induction n rule: str_nat.induct)
  case (1 n)
  show ?case
  proof (cases "n < 10")
    case True
    then show ?thesis
      by (simp add: str_nat.simps [of n] digits_value_def digit_char_facts)
  next
    case False
    with 1 have "digits_value (str_nat (n div 10)) = n div 10" by simp
    with False show ?thesis
      by (simp add: str_nat.simps [of n] digits_value_snoc digit_char_facts)
  qed
qed

lemma is_digit_not_r: "is_digit c \<Longrightarrow> c \<noteq> CHR ''r''"
  by (auto simp: is_digit_def)

lemma is_digit_not_space: "is_digit c \<Longrightarrow> c \<noteq> CHR '' ''"
  by (auto simp: is_digit_def)

lemma takeWhile_digits: "list_all is_digit ds \<Longrightarrow> \<not> is_digit c \<Longrightarrow> takeWhile is_digit (ds @ c # cs) = ds"
  by (induction ds) simp_all

lemma dropWhile_digits: "list_all is_digit ds \<Longrightarrow> \<not> is_digit c \<Longrightarrow> dropWhile is_digit (ds @ c # cs) = c # cs"
  by (induction ds) simp_all

lemma format_f0_shape:
  "format_f0 x = (if x < 0 then ''-'' else []) @ str_nat (nat (round_half_even \<bar>x\<bar>))"
  by (simp add: format_f0_def)

lemma format_f1_chars: "\<forall>c \<in> set (format_f1 x). c \<noteq> CHR ''r''"
  using str_nat_digits [of "nat (round_half_even (\<bar>x\<bar> * 10)) div 10"]
  by (auto simp: format_f1_def Let_def list_all_iff digit_char_facts(3) dest: is_digit_not_r)

lemma format_f0_chars: "\<forall>c \<in> set (format_f0 x). c \<noteq> CHR ''r''"
  using str_nat_digits [of "nat (round_half_even \<bar>x\<bar>)"]
  by (auto simp: format_f0_def list_all_iff dest: is_digit_not_r)

subsection \<open>The source's pattern on the texts\<close>

declare re_search.simps [simp del]

lemma re_search_Nil [simp]: "re_search [] = None"
  by (simp add: re_search.simps match_here_def starts_with_def)

lemma re_search_skip: "c \<noteq> CHR ''r'' \<Longrightarrow> re_search (c # cs) = re_search cs"
  by (simp add: re_search.simps match_here_def starts_with_def)

lemma re_search_skip_r:
  "c2 \<noteq> CHR 0xC3 \<Longrightarrow> re_search (CHR ''r'' # c2 # cs) = re_search (c2 # cs)"
  by (simp add: re_search.simps match_here_def starts_with_def)

lemma re_search_skip_re:
  "c4 \<noteq> CHR ''d'' \<Longrightarrow>
   re_search (CHR ''r'' # CHR 0xC3 # CHR 0xA9 # c4 # cs) = re_search (CHR 0xC3 # CHR 0xA9 # c4 # cs)"
  by (simp add: re_search.simps match_here_def starts_with_def)

lemma re_search_skip_chars: "\<forall>c \<in> set pre. c \<noteq> CHR ''r'' \<Longrightarrow> re_search (pre @ s) = re_search s"
  by (induction pre) (simp_all add: re_search_skip)

lemma re_search_skip_f0 [simp]: "re_search (format_f0 x @ s) = re_search s"
  by (rule re_search_skip_chars [OF format_f0_chars])

lemma re_search_skip_f1 [simp]: "re_search (format_f1 x @ s) = re_search s"
  by (rule re_search_skip_chars [OF format_f1_chars])

lemma match_here_number:
  "match_here (CHR ''r'' # CHR 0xC3 # CHR 0xA9 # CHR ''d'' # CHR ''u'' # CHR ''i'' # CHR ''t'' #
               CHR '' '' # str_nat n @ CHR '' '' # CHR ''k'' # CHR ''g'' # CHR ''C'' # CHR ''O'' #
               CHR 0xE2 # CHR 0x82 # CHR 0x82 # CHR ''e'' # rest) = Some (of_nat n)"
proof -
  have s: "\<not> is_digit (CHR '' '')" by (simp add: is_digit_def)
  show ?thesis
    using str_nat_nonempty [of n]
    by (simp add: match_here_def starts_with_def Let_def
          takeWhile_digits [OF str_nat_digits s] dropWhile_digits [OF str_nat_digits s]
          digits_value_str_nat is_space_def digits_value_def [of "[]"])
qed

lemma match_here_sign:
  "match_here (CHR ''r'' # CHR 0xC3 # CHR 0xA9 # CHR ''d'' # CHR ''u'' # CHR ''i'' # CHR ''t'' #
               CHR '' '' # c # cs) = None" if "\<not> is_digit c"
  using that by (simp add: match_here_def starts_with_def Let_def)

lemma re_search_after_sign:
  assumes "\<not> is_digit c" and "c \<noteq> CHR ''r''"
  shows "re_search (CHR ''r'' # CHR 0xC3 # CHR 0xA9 # CHR ''d'' # CHR ''u'' # CHR ''i'' #
                    CHR ''t'' # CHR '' '' # c # cs) = re_search cs"
proof -
  have "re_search (CHR ''r'' # CHR 0xC3 # CHR 0xA9 # CHR ''d'' # CHR ''u'' # CHR ''i'' #
                   CHR ''t'' # CHR '' '' # c # cs)
        = re_search (CHR 0xC3 # CHR 0xA9 # CHR ''d'' # CHR ''u'' # CHR ''i'' #
                     CHR ''t'' # CHR '' '' # c # cs)"
    by (subst re_search.simps) (simp only: match_here_sign [OF assms(1)] option.case)
  also have "\<dots> = re_search cs"
    using assms(2) by (simp add: re_search_skip)
  finally show ?thesis .
qed

lemma re_search_hit:
  "re_search (CHR ''r'' # CHR 0xC3 # CHR 0xA9 # CHR ''d'' # CHR ''u'' # CHR ''i'' # CHR ''t'' #
              CHR '' '' # format_f0 x @ CHR '' '' # CHR ''k'' # CHR ''g'' # CHR ''C'' # CHR ''O'' #
              CHR 0xE2 # CHR 0x82 # CHR 0x82 # CHR ''e'' # rest)
   = (if 0 \<le> x then Some (of_int (round_half_even x)) else re_search rest)"
proof (cases "0 \<le> x")
  case True
  then have "0 \<le> round_half_even x" by (rule round_half_even_nonneg)
  with True show ?thesis
    by (subst re_search.simps) (simp add: format_f0_shape match_here_number)
next
  case False
  have m: "\<not> is_digit (CHR ''-'')" "CHR ''-'' \<noteq> CHR ''r''" by (simp_all add: is_digit_def)
  have d: "re_search (str_nat n @ s) = re_search s" for n s
    using str_nat_digits [of n]
    by (intro re_search_skip_chars) (auto simp: list_all_iff dest: is_digit_not_r)
  from False show ?thesis
    by (simp add: format_f0_shape re_search_after_sign [OF m] d re_search_skip)
qed

lemma re_search_tilde:
  "re_search (CHR ''r'' # CHR 0xC3 # CHR 0xA9 # CHR ''d'' # CHR ''u'' # CHR ''i'' # CHR ''t'' #
              CHR '' '' # CHR ''~'' # cs) = re_search cs"
  by (rule re_search_after_sign) (simp_all add: is_digit_def)

subsection \<open>The embedded amount on the texts\<close>

declare embedded_search.simps [simp del]

lemma embedded_search_Nil [simp]: "embedded_search [] = None"
  by (simp add: embedded_search.simps)

lemma embedded_search_step:
  "unit_here (c # cs) = None \<Longrightarrow> embedded_search (c # cs) = embedded_search cs"
  by (simp add: embedded_search.simps)

lemma embedded_search_skip:
  "c \<notin> set ''0123456789'' \<Longrightarrow> embedded_search (c # cs) = embedded_search cs"
  by (rule embedded_search_step) (simp add: unit_here_def is_digit_def)

lemma unit_here_digits_other:
  assumes "list_all is_digit ds" and "\<not> is_digit c" and "c \<noteq> CHR '' ''"
  shows "unit_here (ds @ c # cs) = None"
  using assms
  by (simp add: unit_here_def Let_def takeWhile_digits dropWhile_digits starts_with_def)

lemma embedded_search_skip_digits:
  assumes "list_all is_digit ds" and "\<not> is_digit c" and "c \<noteq> CHR '' ''"
  shows "embedded_search (ds @ c # cs) = embedded_search (c # cs)"
  using assms(1)
proof (induction ds)
  case Nil
  show ?case by simp
next
  case (Cons d ds)
  then have "unit_here ((d # ds) @ c # cs) = None"
    using assms(2,3) by (intro unit_here_digits_other) simp_all
  then have "embedded_search ((d # ds) @ c # cs) = embedded_search (ds @ c # cs)"
    by (simp add: embedded_search_step)
  with Cons show ?case by simp
qed

lemma embedded_search_skip_f0:
  assumes "\<not> is_digit c" and "c \<noteq> CHR '' ''"
  shows "embedded_search (format_f0 x @ c # cs) = embedded_search (c # cs)"
proof -
  have "embedded_search (CHR ''-'' # s) = embedded_search s" for s
    by (rule embedded_search_skip) simp
  then show ?thesis
    by (simp add: format_f0_shape embedded_search_skip_digits [OF str_nat_digits assms])
qed

lemma embedded_search_hit_nat:
  "embedded_search (str_nat n @ CHR '' '' # CHR ''k'' # CHR ''g'' # CHR ''C'' # CHR ''O'' #
                    CHR 0xE2 # CHR 0x82 # CHR 0x82 # CHR ''e'' # rest) = Some (of_nat n)"
proof -
  have s: "\<not> is_digit (CHR '' '')" by (simp add: is_digit_def)
  obtain d ds where d: "str_nat n = d # ds"
    using str_nat_nonempty [of n] by (cases "str_nat n") auto
  have "unit_here (str_nat n @ CHR '' '' # CHR ''k'' # CHR ''g'' # CHR ''C'' # CHR ''O'' #
                   CHR 0xE2 # CHR 0x82 # CHR 0x82 # CHR ''e'' # rest) = Some (of_nat n)"
    using str_nat_nonempty [of n]
    by (simp add: unit_here_def Let_def takeWhile_digits [OF str_nat_digits s]
          dropWhile_digits [OF str_nat_digits s] starts_with_def digits_value_str_nat)
  then show ?thesis
    unfolding d by (simp add: embedded_search.simps)
qed

lemma embedded_search_hit:
  "embedded_search (format_f0 x @ CHR '' '' # CHR ''k'' # CHR ''g'' # CHR ''C'' # CHR ''O'' #
                    CHR 0xE2 # CHR 0x82 # CHR 0x82 # CHR ''e'' # rest)
   = Some (of_nat (nat (round_half_even \<bar>x\<bar>)))"
proof -
  have "embedded_search (CHR ''-'' # s) = embedded_search s" for s
    by (rule embedded_search_skip) simp
  then show ?thesis
    by (simp add: format_f0_shape embedded_search_hit_nat)
qed

lemmas search_simps = re_search_skip re_search_skip_r re_search_skip_re re_search_hit
  re_search_tilde

lemmas embedded_simps = embedded_search_skip embedded_search_step embedded_search_skip_f0
  embedded_search_hit unit_here_def starts_with_def is_digit_def Let_def

lemma reads_embedded_direct:
  assumes "re_search s = (if 0 \<le> x then Some (of_int (round_half_even x)) else None)"
      and "embedded_search s = Some (of_nat (nat (round_half_even \<bar>x\<bar>)))"
  shows "reads_embedded s"
proof (cases "0 \<le> x")
  case True
  then have "0 \<le> round_half_even x" by (rule round_half_even_nonneg)
  with True assms show ?thesis
    by (simp add: reads_embedded_def extract_co2_reduction_def embedded_impact_spec_def)
next
  case False
  with assms(1) show ?thesis
    by (simp add: reads_embedded_def states_reduction_directly_def)
qed

lemma reads_embedded_indirect: "re_search s = None \<Longrightarrow> reads_embedded s"
  by (simp add: reads_embedded_def states_reduction_directly_def)

lemma led_read:
  "re_search (tpl_led x a b) = (if 0 \<le> x then Some (of_int (round_half_even x)) else None)"
  "embedded_search (tpl_led x a b) = Some (of_nat (nat (round_half_even \<bar>x\<bar>)))"
  by (simp_all add: tpl_led_def search_simps embedded_simps)

lemma led_reads_embedded [simp]: "reads_embedded (tpl_led x a b)"
  by (rule reads_embedded_direct) (rule led_read)+

lemma green_read:
  "re_search (tpl_green x a b) = (if 0 \<le> x then Some (of_int (round_half_even x)) else None)"
  "embedded_search (tpl_green x a b) = Some (of_nat (nat (round_half_even \<bar>x\<bar>)))"
  by (simp_all add: tpl_green_def search_simps embedded_simps)

lemma green_reads_embedded [simp]: "reads_embedded (tpl_green x a b)"
  by (rule reads_embedded_direct) (rule green_read)+

lemma routes_read:
  "re_search (tpl_routes x a b) = (if 0 \<le> x then Some (of_int (round_half_even x)) else None)"
  "embedded_search (tpl_routes x a b) = Some (of_nat (nat (round_half_even \<bar>x\<bar>)))"
  by (simp_all add: tpl_routes_def search_simps embedded_simps)

lemma routes_reads_embedded [simp]: "reads_embedded (tpl_routes x a b)"
  by (rule reads_embedded_direct) (rule routes_read)+

lemma ev_read:
  "re_search (tpl_ev x a) = (if 0 \<le> x then Some (of_int (round_half_even x)) else None)"
  "embedded_search (tpl_ev x a) = Some (of_nat (nat (round_half_even \<bar>x\<bar>)))"
  by (simp_all add: tpl_ev_def search_simps embedded_simps)

lemma ev_reads_embedded [simp]: "reads_embedded (tpl_ev x a)"
  by (rule reads_embedded_direct) (rule ev_read)+

lemma carpool_read:
  "re_search (tpl_carpool x a) = (if 0 \<le> x then Some (of_int (round_half_even x)) else None)"
  "embedded_search (tpl_carpool x a) = Some (of_nat (nat (round_half_even \<bar>x\<bar>)))"
  by (simp_all add: tpl_carpool_def search_simps embedded_simps)

lemma carpool_reads_embedded [simp]: "reads_embedded (tpl_carpool x a)"
  by (rule reads_embedded_direct) (rule carpool_read)+

lemma ecodrive_read:
  "re_search (tpl_ecodrive x a b) = (if 0 \<le> x then Some (of_int (round_half_even x)) else None)"
  "embedded_search (tpl_ecodrive x a b) = Some (of_nat (nat (round_half_even \<bar>x\<bar>)))"
  by (simp_all add: tpl_ecodrive_def search_simps embedded_simps)

lemma ecodrive_reads_embedded [simp]: "reads_embedded (tpl_ecodrive x a b)"
  by (rule reads_embedded_direct) (rule ecodrive_read)+

lemma biofuel_read:
  "re_search (tpl_biofuel x a) = (if 0 \<le> x then Some (of_int (round_half_even x)) else None)"
  "embedded_search (tpl_biofuel x a) = Some (of_nat (nat (round_half_even \<bar>x\<bar>)))"
  by (simp_all add: tpl_biofuel_def search_simps embedded_simps)

lemma biofuel_reads_embedded [simp]: "reads_embedded (tpl_biofuel x a)"
  by (rule reads_embedded_direct) (rule biofuel_read)+

lemma heatpump_read:
  "re_search (tpl_heatpump x a b) = (if 0 \<le> x then Some (of_int (round_half_even x)) else None)"
  "embedded_search (tpl_heatpump x a b) = Some (of_nat (nat (round_half_even \<bar>x\<bar>)))"
  by (simp_all add: tpl_heatpump_def search_simps embedded_simps)

lemma heatpump_reads_embedded [simp]: "reads_embedded (tpl_heatpump x a b)"
  by (rule reads_embedded_direct) (rule heatpump_read)+

lemma insulation_read:
  "re_search (tpl_insulation x a) = (if 0 \<le> x then Some (of_int (round_half_even x)) else None)"
  "embedded_search (tpl_insulation x a) = Some (of_nat (nat (round_half_even \<bar>x\<bar>)))"
  by (simp_all add: tpl_insulation_def search_simps embedded_simps)

lemma insulation_reads_embedded [simp]: "reads_embedded (tpl_insulation x a)"
  by (rule reads_embedded_direct) (rule insulation_read)+

lemma video_dom_read:
  "re_search (tpl_video ''domestiques'' x a b) = (if 0 \<le> x then Some (of_int (round_half_even x)) else None)"
  "embedded_search (tpl_video ''domestiques'' x a b) = Some (of_nat (nat (round_half_even \<bar>x\<bar>)))"
  by (simp_all add: tpl_video_def search_simps embedded_simps)

lemma video_dom_reads_embedded [simp]: "reads_embedded (tpl_video ''domestiques'' x a b)"
  by (rule reads_embedded_direct) (rule video_dom_read)+

lemma video_int_read:
  "re_search (tpl_video ''internationaux'' x a b) = (if 0 \<le> x then Some (of_int (round_half_even x)) else None)"
  "embedded_search (tpl_video ''internationaux'' x a b) = Some (of_nat (nat (round_half_even \<bar>x\<bar>)))"
  by (simp_all add: tpl_video_def search_simps embedded_simps)

lemma video_int_reads_embedded [simp]: "reads_embedded (tpl_video ''internationaux'' x a b)"
  by (rule reads_embedded_direct) (rule video_int_read)+

lemma local_read:
  "re_search (tpl_local p q x a) = (if 0 \<le> x then Some (of_int (round_half_even x)) else None)"
  "embedded_search (tpl_local p q x a) = Some (of_nat (nat (round_half_even \<bar>x\<bar>)))"
  by (simp_all add: tpl_local_def search_simps embedded_simps)

lemma local_reads_embedded [simp]: "reads_embedded (tpl_local p q x a)"
  by (rule reads_embedded_direct) (rule local_read)+

lemma suppliers_read:
  "re_search (tpl_suppliers x a b) = (if 0 \<le> x then Some (of_int (round_half_even x)) else None)"
  "embedded_search (tpl_suppliers x a b) = Some (of_nat (nat (round_half_even \<bar>x\<bar>)))"
  by (simp_all add: tpl_suppliers_def search_simps embedded_simps)

lemma suppliers_reads_embedded [simp]: "reads_embedded (tpl_suppliers x a b)"
  by (rule reads_embedded_direct) (rule suppliers_read)+

lemma offset_read:
  "re_search (tpl_offset x a) = None"
  "embedded_search (tpl_offset x a) = Some (of_nat (nat (round_half_even \<bar>x\<bar>)))"
  by (simp_all add: tpl_offset_def search_simps embedded_simps)

lemma offset_reads_embedded [simp]: "reads_embedded (tpl_offset x a)"
  by (rule reads_embedded_indirect) (rule offset_read)

lemma modal_read:
  "re_search (tpl_modal x) = None"
  "embedded_search (tpl_modal x) = Some (of_nat (nat (round_half_even \<bar>x\<bar>)))"
  by (simp_all add: tpl_modal_def search_simps embedded_simps)

lemma modal_reads_embedded [simp]: "reads_embedded (tpl_modal x)"
  by (rule reads_embedded_indirect) (rule modal_read)

lemma foodwaste_read:
  "re_search (tpl_foodwaste x a) = None"
  "embedded_search (tpl_foodwaste x a) = Some (of_nat (nat (round_half_even \<bar>x\<bar>)))"
  by (simp_all add: tpl_foodwaste_def search_simps embedded_simps)

lemma foodwaste_reads_embedded [simp]: "reads_embedded (tpl_foodwaste x a)"
  by (rule reads_embedded_indirect) (rule foodwaste_read)

lemma datacenter_read:
  "re_search (tpl_datacenter x a) = None"
  "embedded_search (tpl_datacenter x a) = Some (of_nat (nat (round_half_even \<bar>x\<bar>)))"
  by (simp_all add: tpl_datacenter_def search_simps embedded_simps)

lemma datacenter_reads_embedded [simp]: "reads_embedded (tpl_datacenter x a)"
  by (rule reads_embedded_indirect) (rule datacenter_read)

subsection \<open>Every candidate text is read as it is written\<close>

lemma source_recommendations_read:
  assumes "source_recommendations d tot src e = Inr new"
  shows "list_all reads_embedded new"
  using assms
  by (auto simp: source_recommendations_def py_div_def Let_def split: if_splits sum.splits)

lemma recommendations_loop_read:
  assumes "recommendations_loop d tot xs acc = Inr recs" and "list_all reads_embedded acc"
  shows "list_all reads_embedded recs"
  using assms
proof (induction xs arbitrary: acc)
  case Nil
  then show ?case by simp
next
  case (Cons x xs)
  obtain src e where x: "x = (src, e)" by (cases x)
  from Cons.prems(1) obtain new where
    new: "source_recommendations d tot src e = Inr new"
    and rest: "recommendations_loop d tot xs (acc @ new) = Inr recs"
    by (auto simp: x split: sum.splits)
  have "list_all reads_embedded (acc @ new)"
    using Cons.prems(2) source_recommendations_read [OF new] by simp
  then show ?case by (rule Cons.IH [OF rest])
qed

lemma strategic_recommendations_read: "list_all reads_embedded (strategic_recommendations d bd)"
  by (simp add: strategic_recommendations_def)

lemma generate_recommendations_candidates:
  assumes "generate_recommendations self d bd = Inr recs"
  shows "\<exists>xs. recs = take 8 (sorted_desc extract_co2_reduction xs) \<and> list_all reads_embedded xs"
proof -
  from assms obtain looped where
    l: "recommendations_loop d (sum_list (dict_values bd)) (take 5 (sorted_desc snd bd)) [] = Inr looped"
    and r: "recs = take 8 (sorted_desc extract_co2_reduction
                             (looped @ strategic_recommendations d bd))"
    by (auto simp: generate_recommendations_def Let_def split: sum.splits)
  have "list_all reads_embedded looped"
    by (rule recommendations_loop_read [OF l]) simp
  then have "list_all reads_embedded (looped @ strategic_recommendations d bd)"
    by (simp add: strategic_recommendations_read)
  with r show ?thesis by blast
qed

lemma sorted_desc_by_key: "sorted_wrt (\<lambda>a b. key a \<ge> key b) (sorted_desc key xs)"
proof -
  have "sorted (map (\<lambda>x. - key x) (sort_key (\<lambda>x. - key x) xs))"
    by (rule sorted_sort_key)
  then show ?thesis
    by (simp add: sorted_desc_def sorted_wrt_map)
qed

lemma set_sorted_desc: "set (sorted_desc key xs) = set xs"
  by (simp add: sorted_desc_def)

lemma ranked_reads_embedded:
  assumes "list_all reads_embedded xs"
  shows "descending (map embedded_impact_spec
           (filter states_reduction_directly (take 8 (sorted_desc extract_co2_reduction xs))))"
proof -
  let ?recs = "take 8 (sorted_desc extract_co2_reduction xs)"
  have "sorted_wrt (\<lambda>a b. extract_co2_reduction a \<ge> extract_co2_reduction b) ?recs"
    by (rule sorted_wrt_take [OF sorted_desc_by_key])
  then have "sorted_wrt (\<lambda>a b. extract_co2_reduction a \<ge> extract_co2_reduction b)
               (filter states_reduction_directly ?recs)"
    by (rule sorted_wrt_filter)
  then have s: "descending (map extract_co2_reduction (filter states_reduction_directly ?recs))"
    by (simp add: descending_def sorted_wrt_map)
  have "set ?recs \<subseteq> set xs"
    using set_take_subset [of 8 "sorted_desc extract_co2_reduction xs"]
    by (simp add: set_sorted_desc)
  with assms have "\<forall>t \<in> set (filter states_reduction_directly ?recs).
                     extract_co2_reduction t = embedded_impact_spec t"
    by (auto simp: list_all_iff reads_embedded_def)
  then have "map extract_co2_reduction (filter states_reduction_directly ?recs)
               = map embedded_impact_spec (filter states_reduction_directly ?recs)"
    by (intro map_cong) simp_all
  with s show ?thesis by simp
qed

subsection \<open>Recommendation ranking\<close>

lemma short_flights_breakdown:
  "calculate_detailed_breakdown new_CarbonCalculator company_short_flights =
     [(''electricite'', 0), (''gaz'', 0), (''carburants'', 0), (''vehicules'', 0),
      (''vols_domestiques'', 897), (''vols_internationaux'', 897), (''achats'', 0)]"
  by (simp add: calculate_detailed_breakdown_def raw_breakdown_def dict_map_values_def
        company_short_flights_def blank_company_def py_round_def round_half_even_def Let_def)

lemma short_flights_fields:
  "secteur company_short_flights = ''services''"
  "vols_domestiques_km company_short_flights = 3900"
  "vols_internationaux_km company_short_flights = 5750"
  by (simp_all add: company_short_flights_def blank_company_def)

lemma short_flights_sorted_sources:
  "take 5 (sorted_desc snd
     [(''electricite'', 0), (''gaz'', 0), (''carburants'', 0), (''vehicules'', 0),
      (''vols_domestiques'', 897), (''vols_internationaux'', 897), (''achats'', 0::real)])
   = [(''vols_domestiques'', 897), (''vols_internationaux'', 897),
      (''electricite'', 0), (''gaz'', 0), (''carburants'', 0)]"
  by (simp add: sorted_desc_def)

lemma short_flights_candidates:
  "recommendations_loop company_short_flights 1794
     [(''vols_domestiques'', 897), (''vols_internationaux'', 897),
      (''electricite'', 0), (''gaz'', 0), (''carburants'', 0)] []
   = Inr [tpl_video ''domestiques'' (2691 / 10) 15 (351 / 2000),
          tpl_video ''internationaux'' (2691 / 10) 15 (207 / 800)]"
  by (simp add: source_recommendations_def py_div_def Let_def short_flights_fields)

lemma short_flights_read:
  "extract_co2_reduction (tpl_video ''domestiques'' (2691 / 10) 15 (351 / 2000)) = 269"
  "extract_co2_reduction (tpl_video ''internationaux'' (2691 / 10) 15 (207 / 800)) = 269"
  "embedded_impact_spec (tpl_video ''domestiques'' (2691 / 10) 15 (351 / 2000)) = 269"
  "embedded_impact_spec (tpl_video ''internationaux'' (2691 / 10) 15 (207 / 800)) = 269"
  by (simp_all add: extract_co2_reduction_def embedded_impact_spec_def video_dom_read
        video_int_read round_half_even_def Let_def)

lemma short_flights_recommendations:
  "generate_recommendations new_CarbonCalculator company_short_flights
     (calculate_detailed_breakdown new_CarbonCalculator company_short_flights)
   = Inr [tpl_video ''domestiques'' (2691 / 10) 15 (351 / 2000),
          tpl_video ''internationaux'' (2691 / 10) 15 (207 / 800)]"
proof -
  obtain sd where sd: "recommendations_sector_data new_CarbonCalculator company_short_flights = Inr sd"
    using recommendations_sector_data_new by blast
  have t: "sum_list (dict_values
             [(''electricite'', 0), (''gaz'', 0), (''carburants'', 0), (''vehicules'', 0),
              (''vols_domestiques'', 897), (''vols_internationaux'', 897), (''achats'', 0::real)])
           = 1794"
    by (simp add: dict_values_def)
  have s: "strategic_recommendations company_short_flights bd = []" for bd
    by (simp add: strategic_recommendations_def short_flights_fields)
  have r: "sorted_desc extract_co2_reduction
             [tpl_video ''domestiques'' (2691 / 10) 15 (351 / 2000),
              tpl_video ''internationaux'' (2691 / 10) 15 (207 / 800)]
           = [tpl_video ''domestiques'' (2691 / 10) 15 (351 / 2000),
              tpl_video ''internationaux'' (2691 / 10) 15 (207 / 800)]"
    by (simp add: sorted_desc_def short_flights_read)
  show ?thesis
    unfolding generate_recommendations_def Let_def short_flights_breakdown t sd
      short_flights_sorted_sources short_flights_candidates s
    by (simp add: r)
qed

lemma short_flights_total: "scopes_total new_CarbonCalculator company_short_flights = 1794"
  by (simp add: scopes_total_def calculate_scope_1_def calculate_scope_2_def
        calculate_scope_3_def upstream_energy_def company_short_flights_def blank_company_def
        Let_def)

lemma short_flights_returns:
  "\<exists>r. calculate_emissions new_CarbonCalculator company_short_flights = Inr r"
  by (rule calculate_emissions_returns)
     (simp_all add: short_flights_breakdown short_flights_total dict_values_def)

lemma long_haul_breakdown:
  "calculate_detailed_breakdown new_CarbonCalculator company_long_haul =
     [(''electricite'', 0), (''gaz'', 0), (''carburants'', 0), (''vehicules'', 23160),
      (''vols_domestiques'', 0), (''vols_internationaux'', 0), (''achats'', 0)]"
  by (simp add: calculate_detailed_breakdown_def raw_breakdown_def dict_map_values_def
        company_long_haul_def blank_company_def py_round_def round_half_even_def Let_def)

lemma long_haul_fields:
  "secteur company_long_haul = ''logistique''"
  "vehicules_km_annuel company_long_haul = 120000"
  by (simp_all add: company_long_haul_def blank_company_def)

lemma long_haul_sorted_sources:
  "take 5 (sorted_desc snd
     [(''electricite'', 0), (''gaz'', 0), (''carburants'', 0), (''vehicules'', 23160),
      (''vols_domestiques'', 0), (''vols_internationaux'', 0), (''achats'', 0::real)])
   = [(''vehicules'', 23160), (''electricite'', 0), (''gaz'', 0), (''carburants'', 0),
      (''vols_domestiques'', 0)]"
  by (simp add: sorted_desc_def)

lemma long_haul_candidates:
  "recommendations_loop company_long_haul 23160
     [(''vehicules'', 23160), (''electricite'', 0), (''gaz'', 0), (''carburants'', 0),
      (''vols_domestiques'', 0)] []
   = Inr [tpl_routes (13896 / 5) 12 (7776 / 5), tpl_ev (22581 / 5) 210000]"
  by (simp add: source_recommendations_def py_div_def Let_def long_haul_fields)

lemma long_haul_strategic:
  "strategic_recommendations company_long_haul
     [(''electricite'', 0), (''gaz'', 0), (''carburants'', 0), (''vehicules'', 23160),
      (''vols_domestiques'', 0), (''vols_internationaux'', 0), (''achats'', 0)]
   = [tpl_modal 5790]"
  by (simp add: strategic_recommendations_def long_haul_fields dict_get_def)

lemma long_haul_read:
  "extract_co2_reduction (tpl_routes (13896 / 5) 12 (7776 / 5)) = 2779"
  "extract_co2_reduction (tpl_ev (22581 / 5) 210000) = 4516"
  "extract_co2_reduction (tpl_modal 5790) = 0"
  "embedded_impact_spec (tpl_routes (13896 / 5) 12 (7776 / 5)) = 2779"
  "embedded_impact_spec (tpl_ev (22581 / 5) 210000) = 4516"
  "embedded_impact_spec (tpl_modal 5790) = 5790"
  "states_reduction_directly (tpl_routes (13896 / 5) 12 (7776 / 5))"
  "states_reduction_directly (tpl_ev (22581 / 5) 210000)"
  "\<not> states_reduction_directly (tpl_modal 5790)"
  by (simp_all add: extract_co2_reduction_def embedded_impact_spec_def
        states_reduction_directly_def routes_read ev_read modal_read round_half_even_def Let_def)

lemma long_haul_recommendations:
  "generate_recommendations new_CarbonCalculator company_long_haul
     (calculate_detailed_breakdown new_CarbonCalculator company_long_haul)
   = Inr [tpl_ev (22581 / 5) 210000, tpl_routes (13896 / 5) 12 (7776 / 5), tpl_modal 5790]"
proof -
  obtain sd where sd: "recommendations_sector_data new_CarbonCalculator company_long_haul = Inr sd"
    using recommendations_sector_data_new by blast
  have t: "sum_list (dict_values
             [(''electricite'', 0), (''gaz'', 0), (''carburants'', 0), (''vehicules'', 23160),
              (''vols_domestiques'', 0), (''vols_internationaux'', 0), (''achats'', 0::real)])
           = 23160"
    by (simp add: dict_values_def)
  have r: "sorted_desc extract_co2_reduction
             [tpl_routes (13896 / 5) 12 (7776 / 5), tpl_ev (22581 / 5) 210000, tpl_modal 5790]
           = [tpl_ev (22581 / 5) 210000, tpl_routes (13896 / 5) 12 (7776 / 5), tpl_modal 5790]"
    by (simp add: sorted_desc_def long_haul_read)
  show ?thesis
    unfolding generate_recommendations_def Let_def long_haul_breakdown t sd
      long_haul_sorted_sources long_haul_candidates long_haul_strategic
    by (simp add: r)
qed

lemma long_haul_total: "scopes_total new_CarbonCalculator company_long_haul = 23160"
  by (simp add: scopes_total_def calculate_scope_1_def calculate_scope_2_def
        calculate_scope_3_def upstream_energy_def company_long_haul_def blank_company_def Let_def)

lemma long_haul_returns:
  "\<exists>r. calculate_emissions new_CarbonCalculator company_long_haul = Inr r"
  by (rule calculate_emissions_returns)
     (simp_all add: long_haul_breakdown long_haul_total dict_values_def)

text \<open>
  The sort reads 0 from a text that writes its amount after a tilde: for a logistics
  company driving 120000 km the modal shift text, which embeds 5790, is returned after the
  texts that embed 4516 and 2779.
\<close>

lemma long_haul_modal_shift_ranked_last:
  "map_sum id (map embedded_impact_spec \<circ> recommendations)
     (calculate_emissions new_CarbonCalculator company_long_haul) = Inr [4516, 2779, 5790] \<and>
   map_sum id (map extract_co2_reduction \<circ> recommendations)
     (calculate_emissions new_CarbonCalculator company_long_haul) = Inr [4516, 2779, 0]"
proof -
  obtain q where q: "calculate_emissions new_CarbonCalculator company_long_haul = Inr q"
    using long_haul_returns by blast
  have "recommendations q
          = [tpl_ev (22581 / 5) 210000, tpl_routes (13896 / 5) 12 (7776 / 5), tpl_modal 5790]"
    using calculate_emissions_fields(6) [OF q] by (simp add: long_haul_recommendations)
  then show ?thesis
    unfolding q by (simp add: long_haul_read)
qed

text \<open>
  For domestic flights of 3900 km and international flights of 5750 km the engine returns
  two texts that both embed 269: the order of the embedded impacts is not strict.
\<close>

theorem recommendations_not_strict_counterexample:
  "map_sum id (map embedded_impact_spec \<circ> recommendations)
     (calculate_emissions new_CarbonCalculator company_short_flights) = Inr [269, 269] \<and>
   map_sum id (strictly_descending \<circ> map embedded_impact_spec \<circ> recommendations)
     (calculate_emissions new_CarbonCalculator company_short_flights) = Inr False"
proof -
  obtain r where r: "calculate_emissions new_CarbonCalculator company_short_flights = Inr r"
    using short_flights_returns by blast
  have "recommendations r
          = [tpl_video ''domestiques'' (2691 / 10) 15 (351 / 2000),
             tpl_video ''internationaux'' (2691 / 10) 15 (207 / 800)]"
    using calculate_emissions_fields(6) [OF r] by (simp add: short_flights_recommendations)
  then show ?thesis
    unfolding r by (simp add: short_flights_read strictly_descending_def)
qed

text \<open>
  Claim C4, as amended. Whenever the engine returns a result, its recommendation list has
  at most 8 texts, and the texts of the list that state their reduction directly (the word
  "reduit", the number, the unit) follow each other in an order in which the embedded
  impact never increases; equal impacts may follow each other. Where a text that writes
  its amount in another form stands in the list is left open.
\<close>

theorem recommendations_at_most_eight_descending:
  assumes "calculate_emissions self d = Inr r"
  shows "length (recommendations r) \<le> 8 \<and>
         descending (map embedded_impact_spec
                       (filter states_reduction_directly (recommendations r)))"
proof -
  have "generate_recommendations self d (calculate_detailed_breakdown self d)
          = Inr (recommendations r)"
    by (rule calculate_emissions_fields(6) [OF assms])
  then obtain xs where xs: "recommendations r = take 8 (sorted_desc extract_co2_reduction xs)"
    and c: "list_all reads_embedded xs"
    using generate_recommendations_candidates by blast
  have "length (recommendations r) \<le> 8"
    by (simp add: xs)
  moreover have "descending (map embedded_impact_spec
                   (filter states_reduction_directly (recommendations r)))"
    unfolding xs by (rule ranked_reads_embedded [OF c])
  ultimately show ?thesis by blast
qed

theorem recommendations_at_most_eight_descending_witness:
  "\<exists>r. calculate_emissions new_CarbonCalculator company_long_haul = Inr r \<and>
       length (recommendations r) \<le> 8 \<and>
       map embedded_impact_spec (filter states_reduction_directly (recommendations r))
         = [4516, 2779] \<and>
       descending (map embedded_impact_spec
                     (filter states_reduction_directly (recommendations r)))"
proof -
  obtain r where r: "calculate_emissions new_CarbonCalculator company_long_haul = Inr r"
    using long_haul_returns by blast
  have "recommendations r
          = [tpl_ev (22581 / 5) 210000, tpl_routes (13896 / 5) 12 (7776 / 5), tpl_modal 5790]"
    using calculate_emissions_fields(6) [OF r] by (simp add: long_haul_recommendations)
  then have "map embedded_impact_spec (filter states_reduction_directly (recommendations r))
               = [4516, 2779]"
    by (simp add: long_haul_read)
  with r recommendations_at_most_eight_descending [OF r] show ?thesis
    by (intro exI [of _ r]) simp
qed

end
